theory Spec2Isabelle
  imports Complex_Main
begin

section \<open>Stability analysis engine of the G-Bc plane viewer\<close>

text \<open>
  The engine of \<^verbatim>\<open>interactive_stability_analysis.jsx\<close>: the admittance aggregation, the
  stability boundary circle, the k contour circle, the stability classifier, the voltage
  ratio, the eigenvalue solver and the time response. The file holds two variants of the
  component; the second one (direct sliders for G and Bc) repeats the circle, the
  classifier and the voltage ratio, and its copies carry the suffix \<open>_direct\<close> here.

  The code is read in two arithmetics.

  The first part reads the formulas of the code over \<^typ>\<open>real\<close>: the arithmetic is exact.
  It carries the statements about the formulas themselves: the aggregation, the boundary
  circle, the contour, the voltage ratio, the distance test of the classifier and its
  agreement with the roots of the characteristic equation. Every division of the source
  that these theorems reach has a nonzero divisor, by a guard of the code or a hypothesis
  of the theorem.

  The second part reads the same code in the arithmetic it runs in: a JavaScript number is
  an IEEE 754 double, every operation rounds to the nearest double, overflows to an
  infinity and propagates NaN. The functions of this part carry the suffix \<open>_js\<close>; each
  performs the operations of its source lines one by one, in the order JavaScript
  evaluates them. It carries the statements about what the program returns where rounding,
  overflow or NaN decide: the answers of the classifier and of the eigenvalue solver at
  the same point, the contract of the eigenvalue solver and the clamp of the time
  response.
\<close>

section \<open>The formulas over the reals\<close>

subsection \<open>Data\<close>

record params =
  Xd :: real
  Xd_prime :: real
  XL :: real
  Td0_prime :: real
  Tq0_prime :: real

record systemConfig =
  P_load1 :: real
  P_load2 :: real
  P_load3 :: real
  Qc_cap1 :: real
  Qc_cap2 :: real
  Qc_cable :: real
  V :: real

record connected =
  load1 :: bool
  load2 :: bool
  load3 :: bool
  cap1 :: bool
  cap2 :: bool
  cable :: bool

text \<open>The object returned by the aggregation \<^verbatim>\<open>useMemo\<close> (lines 44-65).\<close>

record operating =
  G :: real
  Bc :: real
  P_total :: real
  Qc_total :: real

text \<open>The object \<^verbatim>\<open>{ G_center, Bc_center, R }\<close> of both circle functions.\<close>

record circle =
  G_center :: real
  Bc_center :: real
  R :: real


text \<open>The initial \<^verbatim>\<open>params\<close> state of both variants (lines 5-11 and 594-600).\<close>

definition initial_params :: params where
  "initial_params =
     \<lparr>Xd = 1.8, Xd_prime = 0.3, XL = 5.0, Td0_prime = 5.0, Tq0_prime = 1.0\<rparr>"

text \<open>The initial \<^verbatim>\<open>systemConfig\<close> and \<^verbatim>\<open>connected\<close> states (lines 14-35).\<close>

definition initial_systemConfig :: systemConfig where
  "initial_systemConfig =
     \<lparr>P_load1 = 0.05, P_load2 = 0.03, P_load3 = 0.02,
      Qc_cap1 = 0.04, Qc_cap2 = 0.02, Qc_cable = 0.015, V = 1.0\<rparr>"

definition initial_connected :: connected where
  "initial_connected =
     \<lparr>load1 = True, load2 = True, load3 = True, cap1 = True, cap2 = True, cable = True\<rparr>"

subsection \<open>Admittance aggregation (lines 44-65)\<close>

definition aggregate :: "systemConfig \<Rightarrow> connected \<Rightarrow> operating" where
  "aggregate cfg conn =
     (let V2 = V cfg * V cfg;
          P = 0;
          P = (if load1 conn then P + P_load1 cfg else P);
          P = (if load2 conn then P + P_load2 cfg else P);
          P = (if load3 conn then P + P_load3 cfg else P);
          Qc = 0;
          Qc = (if cap1 conn then Qc + Qc_cap1 cfg else Qc);
          Qc = (if cap2 conn then Qc + Qc_cap2 cfg else Qc);
          Qc = (if cable conn then Qc + Qc_cable cfg else Qc)
      in \<lparr>G = P / V2, Bc = Qc / V2, P_total = P, Qc_total = Qc\<rparr>)"

subsection \<open>Stability boundary circle (lines 68-73 and 607-612)\<close>

definition stabilityCircle :: "params \<Rightarrow> circle" where
  "stabilityCircle p =
     (let Bc_center = 0.5 * (1 / (XL p + Xd_prime p) + 1 / (XL p + Xd p));
          R = (Xd p - Xd_prime p) / (2 * (XL p + Xd_prime p) * (XL p + Xd p))
      in \<lparr>G_center = 0, Bc_center = Bc_center, R = R\<rparr>)"

definition stabilityCircle_direct :: "params \<Rightarrow> circle" where
  "stabilityCircle_direct p =
     (let Bc_center = 0.5 * (1 / (XL p + Xd_prime p) + 1 / (XL p + Xd p));
          R = (Xd p - Xd_prime p) / (2 * (XL p + Xd_prime p) * (XL p + Xd p))
      in \<lparr>G_center = 0, Bc_center = Bc_center, R = R\<rparr>)"

subsection \<open>Contour of equal voltage ratio (lines 76-80 and 615-619)\<close>

definition calculateKCircle :: "params \<Rightarrow> real \<Rightarrow> circle" where
  "calculateKCircle p k =
     (let X_total = XL p + Xd_prime p
      in \<lparr>G_center = 0, Bc_center = 1 / X_total, R = 1 / (k * X_total)\<rparr>)"

text \<open>
  The points of a contour, as both variants draw it (lines 387-388 and 739-740):
  \<^verbatim>\<open>g = c.G_center + c.R * Math.cos(th)\<close>, \<^verbatim>\<open>bc = c.Bc_center + c.R * Math.sin(th)\<close>.
\<close>

definition contour_g :: "circle \<Rightarrow> real \<Rightarrow> real" where
  "contour_g c th = G_center c + R c * cos th"

definition contour_bc :: "circle \<Rightarrow> real \<Rightarrow> real" where
  "contour_bc c th = Bc_center c + R c * sin th"

subsection \<open>Stability classifier (lines 83-86 and 622-626)\<close>

text \<open>
  \<^verbatim>\<open>checkStability\<close> closes over the memoised \<^verbatim>\<open>stabilityCircle\<close>, which is the first
  argument here. The first variant destructures \<^verbatim>\<open>G_center\<close> and does not use it.
\<close>

definition checkStability :: "circle \<Rightarrow> real \<Rightarrow> real \<Rightarrow> bool" where
  "checkStability c g bc = (sqrt (g * g + (bc - Bc_center c)\<^sup>2) > R c)"

definition checkStability_direct :: "circle \<Rightarrow> real \<Rightarrow> real \<Rightarrow> bool" where
  "checkStability_direct c g bc =
     (let distance = sqrt ((g - G_center c)\<^sup>2 + (bc - Bc_center c)\<^sup>2)
      in distance > R c)"

subsection \<open>Voltage ratio (lines 88-92 and 629-633)\<close>

definition calculateK :: "params \<Rightarrow> real \<Rightarrow> real \<Rightarrow> real" where
  "calculateK p g bc =
     (let X = XL p + Xd_prime p;
          denom = sqrt ((1 - bc * X)\<^sup>2 + (g * X)\<^sup>2)
      in if denom < 1 / 10 ^ 10 then 999 else 1 / denom)"

definition calculateK_direct :: "params \<Rightarrow> real \<Rightarrow> real \<Rightarrow> real" where
  "calculateK_direct p g bc =
     (let X = XL p + Xd_prime p;
          denom = sqrt ((1 - bc * X)\<^sup>2 + (g * X)\<^sup>2)
      in if denom < 1 / 10 ^ 10 then 999 else 1 / denom)"

subsection \<open>Roots of the characteristic equation (lines 94-117)\<close>


subsection \<open>Notions of the specification\<close>

text \<open>
  The Euclidean distance of the classifier's contract (section 4.4 of the specification),
  written from the specification's words to compare the code with.
\<close>

definition euclidean_distance :: "real \<times> real \<Rightarrow> real \<times> real \<Rightarrow> real" where
  "euclidean_distance a b = sqrt ((fst a - fst b)\<^sup>2 + (snd a - snd b)\<^sup>2)"

subsection \<open>Names for the intermediate values of the exact solver\<close>








section \<open>The program in double precision\<close>

subsection \<open>JavaScript numbers\<close>

text \<open>
  A JavaScript number is an IEEE 754 double: a finite value, which is a real number
  \<open>n * 2 ^ (e - 52)\<close> with \<open>\<bar>n\<bar> < 2 ^ 53\<close> and \<open>- 1022 \<le> e \<le> 1023\<close>; the negative zero; one of
  the two infinities; or NaN. \<open>Num 0\<close> is the positive zero.
\<close>

datatype jsnum = Num real | NegZero | PInf | NInf | NaN

text \<open>
  Rounding to the nearest double, ties to even. \<open>rhe\<close> rounds a real to the nearest
  integer and a half to the even neighbour. For a magnitude \<open>y > 0\<close>, \<open>expo y\<close> is the
  exponent of \<open>y\<close>, not below \<open>- 1022\<close> where the subnormal doubles begin; \<open>quantum y\<close> is
  the distance between neighbouring doubles at \<open>y\<close>; \<open>round_mag y\<close> is the multiple of the
  quantum nearest to \<open>y\<close>. A magnitude that rounds to \<open>2 ^ 1024\<close> or more becomes an
  infinity, and one that rounds to zero becomes the zero of its sign.
\<close>

definition rhe :: "real \<Rightarrow> int" where
  "rhe z = (let f = \<lfloor>z\<rfloor>; r = z - of_int f
            in if r < 1 / 2 then f else if 1 / 2 < r then f + 1
               else if even f then f else f + 1)"

definition expo :: "real \<Rightarrow> int" where
  "expo y = max \<lfloor>log 2 y\<rfloor> (- 1022)"

definition quantum :: "real \<Rightarrow> real" where
  "quantum y = 2 powi (expo y - 52)"

definition round_mag :: "real \<Rightarrow> real" where
  "round_mag y = of_int (rhe (y / quantum y)) * quantum y"

definition huge :: real where
  "huge = 2 ^ 1024"

definition rnd :: "real \<Rightarrow> jsnum" where
  "rnd x =
     (if x = 0 then Num 0
      else
        (let m = round_mag \<bar>x\<bar>
         in if huge \<le> m then (if 0 < x then PInf else NInf)
            else if m = 0 then (if 0 < x then Num 0 else NegZero)
            else Num (if 0 < x then m else - m)))"

text \<open>
  A decimal literal of the source, and the decimal text that \<^verbatim>\<open>parseFloat\<close> reads from a
  number field, denote the double nearest to their decimal value.
\<close>

definition lit :: "real \<Rightarrow> jsnum" where
  "lit x = rnd x"

subsection \<open>Arithmetic and comparison\<close>

text \<open>
  What the operations look at: the real value of a finite number, the sign, and whether a
  number is an infinity or a zero.
\<close>

fun val :: "jsnum \<Rightarrow> real" where
  "val (Num x) = x"
| "val NegZero = 0"
| "val PInf = 0"
| "val NInf = 0"
| "val NaN = 0"

fun negative :: "jsnum \<Rightarrow> bool" where
  "negative (Num x) = (x < 0)"
| "negative NegZero = True"
| "negative PInf = False"
| "negative NInf = True"
| "negative NaN = False"

fun infinite_js :: "jsnum \<Rightarrow> bool" where
  "infinite_js PInf = True"
| "infinite_js NInf = True"
| "infinite_js a = False"

definition zero_js :: "jsnum \<Rightarrow> bool" where
  "zero_js a = (a = Num 0 \<or> a = NegZero)"

definition signed_zero :: "bool \<Rightarrow> jsnum" where
  "signed_zero neg = (if neg then NegZero else Num 0)"

definition signed_inf :: "bool \<Rightarrow> jsnum" where
  "signed_inf neg = (if neg then NInf else PInf)"

text \<open>
  Unary minus, \<^verbatim>\<open>+\<close>, \<^verbatim>\<open>-\<close>, \<^verbatim>\<open>*\<close>, \<^verbatim>\<open>/\<close> and \<^verbatim>\<open>Math.sqrt\<close>. On finite operands
  the result is the exact result, rounded, and an exact sum of zero is the positive zero
  unless both operands are negative zeros. NaN operands give NaN, and so do
  \<open>\<infinity> - \<infinity>\<close>, \<open>0 * \<infinity>\<close>, \<open>\<infinity> / \<infinity>\<close>, \<open>0 / 0\<close> and the square root of a negative number.
\<close>

fun js_neg :: "jsnum \<Rightarrow> jsnum" where
  "js_neg (Num x) = (if x = 0 then NegZero else Num (- x))"
| "js_neg NegZero = Num 0"
| "js_neg PInf = NInf"
| "js_neg NInf = PInf"
| "js_neg NaN = NaN"

definition js_add :: "jsnum \<Rightarrow> jsnum \<Rightarrow> jsnum" where
  "js_add a b =
     (if a = NaN \<or> b = NaN then NaN
      else if infinite_js a then (if infinite_js b \<and> b \<noteq> a then NaN else a)
      else if infinite_js b then b
      else if a = NegZero \<and> b = NegZero then NegZero
      else (let s = val a + val b in if s = 0 then Num 0 else rnd s))"

definition js_sub :: "jsnum \<Rightarrow> jsnum \<Rightarrow> jsnum" where
  "js_sub a b = js_add a (js_neg b)"

definition js_mul :: "jsnum \<Rightarrow> jsnum \<Rightarrow> jsnum" where
  "js_mul a b =
     (if a = NaN \<or> b = NaN then NaN
      else if infinite_js a \<or> infinite_js b
      then (if zero_js a \<or> zero_js b then NaN else signed_inf (negative a \<noteq> negative b))
      else if zero_js a \<or> zero_js b then signed_zero (negative a \<noteq> negative b)
      else rnd (val a * val b))"

definition js_div :: "jsnum \<Rightarrow> jsnum \<Rightarrow> jsnum" where
  "js_div a b =
     (if a = NaN \<or> b = NaN then NaN
      else if infinite_js a
      then (if infinite_js b then NaN else signed_inf (negative a \<noteq> negative b))
      else if infinite_js b then signed_zero (negative a \<noteq> negative b)
      else if zero_js b
      then (if zero_js a then NaN else signed_inf (negative a \<noteq> negative b))
      else if zero_js a then signed_zero (negative a \<noteq> negative b)
      else rnd (val a / val b))"

fun js_sqrt :: "jsnum \<Rightarrow> jsnum" where
  "js_sqrt (Num x) = (if x < 0 then NaN else if x = 0 then Num 0 else rnd (sqrt x))"
| "js_sqrt NegZero = NegZero"
| "js_sqrt PInf = PInf"
| "js_sqrt NInf = NaN"
| "js_sqrt NaN = NaN"

text \<open>
  The source writes its squares as \<^verbatim>\<open>x ** 2\<close>. The square is the rounded product of \<open>x\<close>
  with itself, which also gives the values that ECMAScript fixes for \<^verbatim>\<open>**\<close> on zeros,
  infinities and NaN.
\<close>

definition js_square :: "jsnum \<Rightarrow> jsnum" where
  "js_square a = js_mul a a"

text \<open>
  \<^verbatim>\<open><\<close>, \<^verbatim>\<open>>\<close>, \<^verbatim>\<open><=\<close> and \<^verbatim>\<open>>=\<close>: false as soon as an operand is NaN; the two zeros
  compare equal.
\<close>

definition js_lt :: "jsnum \<Rightarrow> jsnum \<Rightarrow> bool" where
  "js_lt a b =
     (if a = NaN \<or> b = NaN then False
      else if a = PInf \<or> b = NInf then False
      else if a = NInf \<or> b = PInf then True
      else val a < val b)"

definition js_gt :: "jsnum \<Rightarrow> jsnum \<Rightarrow> bool" where
  "js_gt a b = js_lt b a"

definition js_le :: "jsnum \<Rightarrow> jsnum \<Rightarrow> bool" where
  "js_le a b = (a \<noteq> NaN \<and> b \<noteq> NaN \<and> \<not> js_lt b a)"

definition js_ge :: "jsnum \<Rightarrow> jsnum \<Rightarrow> bool" where
  "js_ge a b = js_le b a"

text \<open>
  \<^verbatim>\<open>Math.max\<close>, \<^verbatim>\<open>Math.min\<close> and \<^verbatim>\<open>Math.abs\<close>. The first two return NaN as soon as an
  argument is NaN, and take the positive zero for larger than the negative one.
\<close>

definition Math_max :: "jsnum \<Rightarrow> jsnum \<Rightarrow> jsnum" where
  "Math_max a b =
     (if a = NaN \<or> b = NaN then NaN
      else if js_lt a b then b else if js_lt b a then a
      else if a = NegZero then b else a)"

definition Math_min :: "jsnum \<Rightarrow> jsnum \<Rightarrow> jsnum" where
  "Math_min a b =
     (if a = NaN \<or> b = NaN then NaN
      else if js_lt a b then a else if js_lt b a then b
      else if a = NegZero then a else b)"

fun Math_abs :: "jsnum \<Rightarrow> jsnum" where
  "Math_abs (Num x) = Num \<bar>x\<bar>"
| "Math_abs NegZero = Num 0"
| "Math_abs PInf = PInf"
| "Math_abs NInf = PInf"
| "Math_abs NaN = NaN"

text \<open>
  ECMAScript fixes \<^verbatim>\<open>Math.exp\<close> and \<^verbatim>\<open>Math.cos\<close> on zeros, infinities and NaN and leaves
  their other values to the implementation. The record \<open>libm\<close> holds the implementation's
  two functions on finite nonzero arguments; it is a parameter of the time response, and the
  statements below hold for every \<open>libm\<close>.
\<close>

record libm =
  exp_impl :: "real \<Rightarrow> jsnum"
  cos_impl :: "real \<Rightarrow> jsnum"

fun Math_exp :: "libm \<Rightarrow> jsnum \<Rightarrow> jsnum" where
  "Math_exp M (Num x) = (if x = 0 then Num 1 else exp_impl M x)"
| "Math_exp M NegZero = Num 1"
| "Math_exp M PInf = PInf"
| "Math_exp M NInf = Num 0"
| "Math_exp M NaN = NaN"

fun Math_cos :: "libm \<Rightarrow> jsnum \<Rightarrow> jsnum" where
  "Math_cos M (Num x) = (if x = 0 then Num 1 else cos_impl M x)"
| "Math_cos M NegZero = Num 1"
| "Math_cos M PInf = NaN"
| "Math_cos M NInf = NaN"
| "Math_cos M NaN = NaN"

subsection \<open>The objects of the source with doubles\<close>

text \<open>
  The objects \<^verbatim>\<open>params\<close>, \<^verbatim>\<open>{ G_center, Bc_center, R }\<close>, the result of
  \<^verbatim>\<open>calculateEigenvalues\<close> and one element \<^verbatim>\<open>{ t, VL, stable }\<close> of the time response, with
  doubles in their number fields.
\<close>

record params_js =
  Xd_js :: jsnum
  Xd_prime_js :: jsnum
  XL_js :: jsnum
  Td0_prime_js :: jsnum
  Tq0_prime_js :: jsnum

record circle_js =
  G_center_js :: jsnum
  Bc_center_js :: jsnum
  R_js :: jsnum

record eigen_js =
  real_js :: jsnum
  imag_js :: jsnum
  stable_js :: bool
  oscillatory_js :: "bool option"

record sample_js =
  t_js :: jsnum
  VL_js :: jsnum
  stable_smp_js :: bool

text \<open>
  The \<^verbatim>\<open>systemConfig\<close> state and the object returned by the aggregation, with doubles. The
  \<^verbatim>\<open>connected\<close> state holds booleans only and is the record of the first part.
\<close>

record systemConfig_js =
  P_load1_js :: jsnum
  P_load2_js :: jsnum
  P_load3_js :: jsnum
  Qc_cap1_js :: jsnum
  Qc_cap2_js :: jsnum
  Qc_cable_js :: jsnum
  V_js :: jsnum

record operating_js =
  G_js :: jsnum
  Bc_js :: jsnum
  P_total_js :: jsnum
  Qc_total_js :: jsnum

text \<open>The initial \<^verbatim>\<open>systemConfig\<close> state (lines 14-25).\<close>

definition initial_systemConfig_js :: systemConfig_js where
  "initial_systemConfig_js =
     \<lparr>P_load1_js = lit (5 / 100), P_load2_js = lit (3 / 100), P_load3_js = lit (2 / 100),
      Qc_cap1_js = lit (4 / 100), Qc_cap2_js = lit (2 / 100), Qc_cable_js = lit (15 / 1000),
      V_js = lit 1\<rparr>"

text \<open>The initial \<^verbatim>\<open>params\<close> state (lines 5-11). The code never changes it.\<close>

definition initial_params_js :: params_js where
  "initial_params_js =
     \<lparr>Xd_js = lit (18 / 10), Xd_prime_js = lit (3 / 10), XL_js = lit 5,
      Td0_prime_js = lit 5, Tq0_prime_js = lit 1\<rparr>"

text \<open>The literal \<^verbatim>\<open>1e-10\<close> of the guards at lines 91 and 99.\<close>

definition epsilon_js :: jsnum where
  "epsilon_js = lit (1 / 10 ^ 10)"

subsection \<open>The functions of the source with doubles\<close>

text \<open>The aggregation \<^verbatim>\<open>useMemo\<close> (lines 44-65).\<close>

definition aggregate_js :: "systemConfig_js \<Rightarrow> connected \<Rightarrow> operating_js" where
  "aggregate_js cfg conn =
     (let V2 = js_mul (V_js cfg) (V_js cfg);
          P = lit 0;
          P = (if load1 conn then js_add P (P_load1_js cfg) else P);
          P = (if load2 conn then js_add P (P_load2_js cfg) else P);
          P = (if load3 conn then js_add P (P_load3_js cfg) else P);
          Qc = lit 0;
          Qc = (if cap1 conn then js_add Qc (Qc_cap1_js cfg) else Qc);
          Qc = (if cap2 conn then js_add Qc (Qc_cap2_js cfg) else Qc);
          Qc = (if cable conn then js_add Qc (Qc_cable_js cfg) else Qc)
      in \<lparr>G_js = js_div P V2, Bc_js = js_div Qc V2, P_total_js = P, Qc_total_js = Qc\<rparr>)"

text \<open>
  \<^verbatim>\<open>stabilityCircle\<close> (lines 68-73), \<^verbatim>\<open>checkStability\<close> (lines 83-86), \<^verbatim>\<open>calculateK\<close>
  (lines 88-92) and \<^verbatim>\<open>calculateEigenvalues\<close> (lines 94-117) of the first variant. The
  second variant has neither the eigenvalue solver nor the time response. As in the first
  part, \<^verbatim>\<open>checkStability\<close> takes the memoised circle as its first argument.
\<close>

definition stabilityCircle_js :: "params_js \<Rightarrow> circle_js" where
  "stabilityCircle_js p =
     (let Bc_center = js_mul (lit (5 / 10))
            (js_add (js_div (lit 1) (js_add (XL_js p) (Xd_prime_js p)))
                    (js_div (lit 1) (js_add (XL_js p) (Xd_js p))));
          R = js_div (js_sub (Xd_js p) (Xd_prime_js p))
                (js_mul (js_mul (lit 2) (js_add (XL_js p) (Xd_prime_js p)))
                        (js_add (XL_js p) (Xd_js p)))
      in \<lparr>G_center_js = lit 0, Bc_center_js = Bc_center, R_js = R\<rparr>)"

definition checkStability_js :: "circle_js \<Rightarrow> jsnum \<Rightarrow> jsnum \<Rightarrow> bool" where
  "checkStability_js c g bc =
     js_gt (js_sqrt (js_add (js_mul g g) (js_square (js_sub bc (Bc_center_js c))))) (R_js c)"

definition calculateK_js :: "params_js \<Rightarrow> jsnum \<Rightarrow> jsnum \<Rightarrow> jsnum" where
  "calculateK_js p g bc =
     (let X = js_add (XL_js p) (Xd_prime_js p);
          denom = js_sqrt (js_add (js_square (js_sub (lit 1) (js_mul bc X)))
                                  (js_square (js_mul g X)))
      in if js_lt denom epsilon_js then lit 999 else js_div (lit 1) denom)"

definition calculateEigenvalues_js :: "params_js \<Rightarrow> jsnum \<Rightarrow> jsnum \<Rightarrow> eigen_js" where
  "calculateEigenvalues_js p g bc =
     (let Q = js_sub (Xd_js p) (Xd_prime_js p);
          X = js_add (XL_js p) (Xd_prime_js p);
          denom = js_add (js_square (js_sub (lit 1) (js_mul bc X))) (js_square (js_mul g X))
      in if js_lt denom epsilon_js
         then \<lparr>real_js = lit 0, imag_js = lit 0, stable_js = False, oscillatory_js = None\<rparr>
         else
           (let Yr = js_div g denom;
                Yi = js_div (js_sub bc (js_mul (js_add (js_mul g g) (js_mul bc bc)) X)) denom;
                a = js_mul (Td0_prime_js p) (Tq0_prime_js p);
                b = js_mul (js_neg (js_add (Td0_prime_js p) (Tq0_prime_js p)))
                           (js_sub (js_mul Yi Q) (lit 1));
                c = js_add (js_square (js_sub (js_mul Yi Q) (lit 1)))
                           (js_mul (js_mul (js_square Yr) Q) Q);
                disc = js_sub (js_mul b b) (js_mul (js_mul (lit 4) a) c)
            in if js_ge disc (lit 0)
               then
                 (let s1 = js_div (js_add (js_neg b) (js_sqrt disc)) (js_mul (lit 2) a);
                      s2 = js_div (js_sub (js_neg b) (js_sqrt disc)) (js_mul (lit 2) a)
                  in \<lparr>real_js = Math_max s1 s2, imag_js = lit 0,
                       stable_js = (js_lt s1 (lit 0) \<and> js_lt s2 (lit 0)),
                       oscillatory_js = Some False\<rparr>)
               else
                 (let re = js_div (js_neg b) (js_mul (lit 2) a);
                      im = js_div (js_sqrt (js_neg disc)) (js_mul (lit 2) a)
                  in \<lparr>real_js = re, imag_js = im, stable_js = js_lt re (lit 0),
                       oscillatory_js = Some True\<rparr>)))"

subsection \<open>Time response (lines 125-151)\<close>

text \<open>
  One turn of the loop body at time \<open>t\<close>, for the operating point \<open>(g, bc)\<close> that
  \<^verbatim>\<open>runSimulation\<close> closes over. \<^verbatim>\<open>eig.oscillatory ? ... : 1\<close> takes the cosine only
  when the property is \<^verbatim>\<open>true\<close>; \<^verbatim>\<open>undefined\<close> and \<^verbatim>\<open>false\<close> give 1.
\<close>

definition simulation_step_js :: "libm \<Rightarrow> params_js \<Rightarrow> jsnum \<Rightarrow> jsnum \<Rightarrow> jsnum \<Rightarrow> sample_js" where
  "simulation_step_js M p g bc t =
     (let eig = calculateEigenvalues_js p g bc;
          k = calculateK_js p g bc;
          stable = checkStability_js (stabilityCircle_js p) g bc;
          VL = lit 1;
          VL = (if js_gt t (lit (5 / 10))
                then
                  (let tau = js_sub t (lit (5 / 10))
                   in if stable
                      then
                        (let decay = Math_exp M (js_mul (real_js eig) tau);
                             osc = (if oscillatory_js eig = Some True
                                    then Math_cos M (js_mul (imag_js eig) tau) else lit 1)
                         in js_mul k (js_add (lit 1) (js_mul (js_mul (lit (2 / 10)) decay) osc)))
                      else
                        (let growth = Math_min
                               (Math_exp M (js_mul (js_mul (Math_abs (real_js eig)) tau)
                                                   (lit (5 / 10))))
                               (lit 4)
                         in js_mul k growth))
                else VL)
      in \<lparr>t_js = t, VL_js = Math_min (Math_max VL (lit (4 / 10))) (lit (25 / 10)),
          stable_smp_js = stable\<rparr>)"

text \<open>
  The loop \<^verbatim>\<open>for (let t = 0; t <= tMax; t += dt)\<close> with the array \<^verbatim>\<open>data\<close> it pushes to.
  The loop variable is a sum of rounded steps, so the recursion follows no structure of its
  arguments: the loop lives in the option monad, where not returning is \<open>None\<close>, and
  \<open>simulation_loop_js_terminates\<close> below shows that it returns.
\<close>

definition dt_js :: jsnum where
  "dt_js = lit (2 / 100)"

definition tMax_js :: jsnum where
  "tMax_js = lit 8"

partial_function (option) simulation_loop_js ::
  "libm \<Rightarrow> params_js \<Rightarrow> jsnum \<Rightarrow> jsnum \<Rightarrow> jsnum \<Rightarrow> sample_js list \<Rightarrow> sample_js list option" where
  "simulation_loop_js M p g bc t data =
     (if js_le t tMax_js
      then simulation_loop_js M p g bc (js_add t dt_js) (data @ [simulation_step_js M p g bc t])
      else Some data)"

definition runSimulation_js :: "libm \<Rightarrow> params_js \<Rightarrow> jsnum \<Rightarrow> jsnum \<Rightarrow> sample_js list option" where
  "runSimulation_js M p g bc = simulation_loop_js M p g bc (lit 0) []"

text \<open>The value of the loop variable at the start of turn \<open>n\<close>, counted from 0.\<close>

primrec simulation_time :: "nat \<Rightarrow> jsnum" where
  "simulation_time 0 = lit 0"
| "simulation_time (Suc n) = js_add (simulation_time n) dt_js"

subsection \<open>Names for the intermediate values of the solver with doubles\<close>

text \<open>
  The local constants \<^verbatim>\<open>Q\<close>, \<^verbatim>\<open>X\<close>, \<^verbatim>\<open>denom\<close>, \<^verbatim>\<open>Yr\<close>, \<^verbatim>\<open>Yi\<close>, \<^verbatim>\<open>a\<close>, \<^verbatim>\<open>b\<close>, \<^verbatim>\<open>c\<close>,
  \<^verbatim>\<open>disc\<close>, \<^verbatim>\<open>s1\<close> and \<^verbatim>\<open>s2\<close> of \<^verbatim>\<open>calculateEigenvalues\<close> as the program computes them, as
  functions of its inputs. \<open>calculateEigenvalues_js_named\<close> below shows that they are the
  values of \<open>calculateEigenvalues_js\<close>.
\<close>

definition eig_Q_js :: "params_js \<Rightarrow> jsnum" where
  "eig_Q_js p = js_sub (Xd_js p) (Xd_prime_js p)"

definition eig_X_js :: "params_js \<Rightarrow> jsnum" where
  "eig_X_js p = js_add (XL_js p) (Xd_prime_js p)"

definition eig_denom_js :: "params_js \<Rightarrow> jsnum \<Rightarrow> jsnum \<Rightarrow> jsnum" where
  "eig_denom_js p g bc =
     js_add (js_square (js_sub (lit 1) (js_mul bc (eig_X_js p)))) (js_square (js_mul g (eig_X_js p)))"

definition eig_Yr_js :: "params_js \<Rightarrow> jsnum \<Rightarrow> jsnum \<Rightarrow> jsnum" where
  "eig_Yr_js p g bc = js_div g (eig_denom_js p g bc)"

definition eig_Yi_js :: "params_js \<Rightarrow> jsnum \<Rightarrow> jsnum \<Rightarrow> jsnum" where
  "eig_Yi_js p g bc =
     js_div (js_sub bc (js_mul (js_add (js_mul g g) (js_mul bc bc)) (eig_X_js p)))
       (eig_denom_js p g bc)"

definition eig_a_js :: "params_js \<Rightarrow> jsnum" where
  "eig_a_js p = js_mul (Td0_prime_js p) (Tq0_prime_js p)"

definition eig_b_js :: "params_js \<Rightarrow> jsnum \<Rightarrow> jsnum \<Rightarrow> jsnum" where
  "eig_b_js p g bc =
     js_mul (js_neg (js_add (Td0_prime_js p) (Tq0_prime_js p)))
       (js_sub (js_mul (eig_Yi_js p g bc) (eig_Q_js p)) (lit 1))"

definition eig_c_js :: "params_js \<Rightarrow> jsnum \<Rightarrow> jsnum \<Rightarrow> jsnum" where
  "eig_c_js p g bc =
     js_add (js_square (js_sub (js_mul (eig_Yi_js p g bc) (eig_Q_js p)) (lit 1)))
       (js_mul (js_mul (js_square (eig_Yr_js p g bc)) (eig_Q_js p)) (eig_Q_js p))"

definition eig_disc_js :: "params_js \<Rightarrow> jsnum \<Rightarrow> jsnum \<Rightarrow> jsnum" where
  "eig_disc_js p g bc =
     js_sub (js_mul (eig_b_js p g bc) (eig_b_js p g bc))
       (js_mul (js_mul (lit 4) (eig_a_js p)) (eig_c_js p g bc))"



subsection \<open>Inputs of the examples\<close>

text \<open>
  Operating points: the point \<open>(0.1, 0.15)\<close> of the specification's scenario B; the
  double nearest to \<open>1 / 5.3\<close>, the capacitance of its degenerate scenario D, where the
  denominator is zero under the initial parameters; a point within rounding error of the
  boundary circle of the initial parameters; and the point \<open>(1e154, 0.075)\<close>, which the
  aggregation gives for \<open>overflow_systemConfig_js\<close> (\<open>overflow_operating_point\<close> below).
\<close>

definition scenario_B_G_js :: jsnum where
  "scenario_B_G_js = lit (1 / 10)"

definition scenario_B_Bc_js :: jsnum where
  "scenario_B_Bc_js = lit (15 / 100)"

definition degenerate_Bc_js :: jsnum where
  "degenerate_Bc_js = lit (10 / 53)"

definition boundary_G_js :: jsnum where
  "boundary_G_js = lit (1225113838468139 / 10 ^ 18)"

definition boundary_Bc_js :: jsnum where
  "boundary_Bc_js = lit (1470949165472104 / 10 ^ 16)"

definition overflow_G_js :: jsnum where
  "overflow_G_js = lit (10 ^ 154)"

definition initial_Bc_js :: jsnum where
  "initial_Bc_js = lit (75 / 1000)"

text \<open>
  The \<^verbatim>\<open>systemConfig\<close> state after \<^verbatim>\<open>1e154\<close> has been typed into the field of the first
  load (line 261: the handler stores \<^verbatim>\<open>parseFloat(e.target.value) || 0\<close>, and the bounds
  \<^verbatim>\<open>min\<close> and \<^verbatim>\<open>max\<close> of the field do not restrict what is typed).
\<close>

definition overflow_systemConfig_js :: systemConfig_js where
  "overflow_systemConfig_js = initial_systemConfig_js\<lparr>P_load1_js := lit (10 ^ 154)\<rparr>"

text \<open>
  A parameter set with positive time constants whose product is beyond the largest double.
\<close>

definition extreme_params_js :: params_js where
  "extreme_params_js =
     \<lparr>Xd_js = lit (18 / 10), Xd_prime_js = lit (3 / 10), XL_js = lit 5,
      Td0_prime_js = lit (15 * 10 ^ 153), Tq0_prime_js = lit (15 * 10 ^ 153)\<rparr>"

subsection \<open>Signs of doubles\<close>



section \<open>Properties\<close>

subsection \<open>Facts over the reals\<close>

lemma aggregate_G:
  "G (aggregate cfg conn) =
     ((if load1 conn then P_load1 cfg else 0) + (if load2 conn then P_load2 cfg else 0)
        + (if load3 conn then P_load3 cfg else 0)) / (V cfg * V cfg)"
  by (simp add: aggregate_def Let_def)

lemma aggregate_Bc:
  "Bc (aggregate cfg conn) =
     ((if cap1 conn then Qc_cap1 cfg else 0) + (if cap2 conn then Qc_cap2 cfg else 0)
        + (if cable conn then Qc_cable cfg else 0)) / (V cfg * V cfg)"
  by (simp add: aggregate_def Let_def)

lemma stabilityCircle_initial:
  "stabilityCircle initial_params = \<lparr>G_center = 0, Bc_center = 605 / 3604, R = 75 / 3604\<rparr>"
  by (simp add: stabilityCircle_def initial_params_def Let_def)

lemma stabilityCircle_direct_eq: "stabilityCircle_direct p = stabilityCircle p"
  by (simp add: stabilityCircle_def stabilityCircle_direct_def)

lemma boundary_test_scenario_C:
  "sqrt (0.02 * 0.02 + (0.18 - 605 / 3604)\<^sup>2) > (75 / 3604 :: real)"
proof (rule real_less_rsqrt)
  show "(75 / 3604 :: real)\<^sup>2 < 0.02 * 0.02 + (0.18 - 605 / 3604)\<^sup>2"
    by (simp add: power2_eq_square)
qed















lemma contour_denominator:
  fixes X k th :: real
  assumes X: "0 < X" and k: "0 < k"
  shows "sqrt ((1 - (1 / X + 1 / (k * X) * sin th) * X)\<^sup>2 + ((0 + 1 / (k * X) * cos th) * X)\<^sup>2)
    = 1 / k"
proof -
  have s: "1 - (1 / X + 1 / (k * X) * sin th) * X = - (sin th / k)"
    using X k by (simp add: field_simps)
  have c: "(0 + 1 / (k * X) * cos th) * X = cos th / k"
    using X k by (simp add: field_simps)
  have "(- (sin th / k))\<^sup>2 + (cos th / k)\<^sup>2 = ((sin th)\<^sup>2 + (cos th)\<^sup>2) / k\<^sup>2"
    by (simp only: power2_minus power_divide add_divide_distrib)
  also have "\<dots> = 1 / k\<^sup>2"
    by (simp only: sin_cos_squared_add)
  also have "\<dots> = (1 / k)\<^sup>2"
    by (simp add: power_divide)
  finally have "sqrt ((- (sin th / k))\<^sup>2 + (cos th / k)\<^sup>2) = sqrt ((1 / k)\<^sup>2)"
    by simp
  also have "\<dots> = 1 / k"
    using k by simp
  finally show ?thesis
    by (simp only: s c)
qed

lemma calculateK_direct_eq: "calculateK_direct p g bc = calculateK p g bc"
  by (simp add: calculateK_def calculateK_direct_def)

subsection \<open>Rounding\<close>

text \<open>
  A rounded value is found from its exponent and its integer multiple of the quantum; it
  keeps the sign of the exact value and lies within half a quantum of it.
\<close>

lemma rhe_eval:
  assumes "\<bar>z - of_int n\<bar> < 1 / 2"
  shows "rhe z = n"
proof -
  have lo: "of_int n - 1 / 2 < z" and hi: "z < of_int n + 1 / 2"
    using assms by linarith+
  show ?thesis
  proof (cases "of_int n \<le> z")
    case True
    then have f: "\<lfloor>z\<rfloor> = n"
      using hi by (intro floor_unique) simp_all
    then show ?thesis
      using hi by (simp add: rhe_def Let_def)
  next
    case False
    then have f: "\<lfloor>z\<rfloor> = n - 1"
      using lo by (intro floor_unique) simp_all
    then show ?thesis
      using lo False by (simp add: rhe_def Let_def)
  qed
qed

lemma rhe_tie:
  assumes "z = of_int m + 1 / 2"
  shows "rhe z = (if even m then m else m + 1)"
proof -
  have "\<lfloor>z\<rfloor> = m"
    using assms by (intro floor_unique) simp_all
  then show ?thesis
    using assms by (simp add: rhe_def Let_def)
qed

lemma rhe_error: "\<bar>of_int (rhe z) - z\<bar> \<le> 1 / 2"
proof -
  have "of_int \<lfloor>z\<rfloor> \<le> z" "z < of_int \<lfloor>z\<rfloor> + 1"
    by linarith+
  then show ?thesis
    by (auto simp add: rhe_def Let_def abs_le_iff)
qed


lemma quantum_pos: "0 < quantum y"
  by (simp add: quantum_def)

lemma expo_eval:
  assumes "0 < y" and "- 1022 \<le> e" and "e = - 1022 \<or> 2 powi e \<le> y" and "y < 2 powi (e + 1)"
  shows "expo y = e"
proof (cases "2 powi e \<le> y")
  case True
  have lo: "2 powr of_int e \<le> y"
    using True by (simp add: powr_real_of_int')
  have "2 powr of_int (e + 1) = (2::real) powi (e + 1)"
    by (rule powr_real_of_int') simp_all
  then have hi: "y < 2 powr (of_int e + 1)"
    using assms(4) by simp
  have "\<lfloor>log 2 y\<rfloor> = e"
    using assms(1) lo hi by (simp add: floor_log_eq_powr_iff)
  then show ?thesis
    using assms(2) by (simp add: expo_def)
next
  case False
  then have e: "e = - 1022"
    using assms(3) by simp
  have "2 powr of_int (e + 1) = (2::real) powi (e + 1)"
    by (rule powr_real_of_int') simp_all
  then have "y < 2 powr of_int (e + 1)"
    using assms(4) by simp
  then have "log 2 y < of_int (e + 1)"
    using assms(1) by (simp only: log_less_iff [of 2 y "of_int (e + 1)"])
  then have "\<lfloor>log 2 y\<rfloor> < e + 1"
    by (simp only: floor_less_iff)
  then show ?thesis
    using e by (simp add: expo_def)
qed

lemma expo_upper:
  assumes "0 < y" and "y < 2 powi k" and "- 1022 \<le> k"
  shows "expo y \<le> k"
proof -
  have "2 powr of_int k = (2::real) powi k"
    by (rule powr_real_of_int') simp_all
  then have "y < 2 powr of_int k"
    using assms(2) by simp
  then have "log 2 y < of_int k"
    using assms(1) by (simp only: log_less_iff [of 2 y "of_int k"])
  then have "\<lfloor>log 2 y\<rfloor> < k"
    by (simp only: floor_less_iff)
  then show ?thesis
    using assms(3) by (simp add: expo_def)
qed

lemma quantum_upper:
  assumes "0 < y" and "y < 2 powi k" and "- 1022 \<le> k"
  shows "quantum y \<le> 2 powi (k - 52)"
  unfolding quantum_def using expo_upper [OF assms]
  by (intro power_int_increasing) simp_all

lemma round_mag_eval:
  assumes "0 < y" and "- 1022 \<le> e" and "e = - 1022 \<or> 2 powi e \<le> y" and "y < 2 powi (e + 1)"
    and q: "q = 2 powi (e - 52)"
    and n: "\<bar>y - of_int n * q\<bar> < q / 2"
  shows "round_mag y = of_int n * q"
proof -
  have e: "expo y = e"
    using assms(1-4) by (rule expo_eval)
  have qpos: "0 < q"
    by (simp add: q)
  have "y / q - of_int n = (y - of_int n * q) / q"
    using qpos by (simp add: field_simps)
  then have "\<bar>y / q - of_int n\<bar> = \<bar>y - of_int n * q\<bar> / q"
    using qpos by (simp add: abs_divide)
  also have "\<dots> < 1 / 2"
    using n qpos by (simp add: field_simps)
  finally have "rhe (y / q) = n"
    by (rule rhe_eval)
  then show ?thesis
    by (simp add: round_mag_def quantum_def e q)
qed


lemma round_mag_error: "\<bar>round_mag y - y\<bar> \<le> quantum y / 2"
proof -
  have "round_mag y - y = (of_int (rhe (y / quantum y)) - y / quantum y) * quantum y"
    using quantum_pos [of y] by (simp add: round_mag_def field_simps)
  then have "\<bar>round_mag y - y\<bar> = \<bar>of_int (rhe (y / quantum y)) - y / quantum y\<bar> * quantum y"
    using quantum_pos [of y] by (simp add: abs_mult)
  also have "\<dots> \<le> 1 / 2 * quantum y"
    using rhe_error [of "y / quantum y"] quantum_pos [of y]
    by (intro mult_right_mono) simp_all
  finally show ?thesis by simp
qed

lemma rnd_eval:
  assumes "r \<noteq> 0" and "- 1022 \<le> e" and "e = - 1022 \<or> 2 powi e \<le> \<bar>r\<bar>"
    and "\<bar>r\<bar> < 2 powi (e + 1)"
    and q: "q = 2 powi (e - 52)"
    and n: "\<bar>\<bar>r\<bar> - of_int n * q\<bar> < q / 2"
    and n0: "0 < n" and fin: "of_int n * q < huge"
    and v: "v = (if 0 < r then of_int n * q else - (of_int n * q))"
  shows "rnd r = Num v"
proof -
  have "round_mag \<bar>r\<bar> = of_int n * q"
    using assms(1) assms(2-4) q n by (intro round_mag_eval) simp_all
  moreover have "0 < of_int n * q"
    using n0 by (simp add: q)
  ultimately show ?thesis
    using assms(1) fin v by (auto simp add: rnd_def Let_def)
qed

lemma rnd_eval_tie:
  assumes "r \<noteq> 0" and "- 1022 \<le> e" and "e = - 1022 \<or> 2 powi e \<le> \<bar>r\<bar>"
    and "\<bar>r\<bar> < 2 powi (e + 1)"
    and q: "q = 2 powi (e - 52)"
    and tie: "\<bar>r\<bar> = (of_int m + 1 / 2) * q"
    and n: "n = (if even m then m else m + 1)"
    and n0: "0 < n" and fin: "of_int n * q < huge"
    and v: "v = (if 0 < r then of_int n * q else - (of_int n * q))"
  shows "rnd r = Num v"
proof -
  have e: "expo \<bar>r\<bar> = e"
    using assms(1-4) by (intro expo_eval) simp_all
  have qpos: "0 < q"
    by (simp add: q)
  have "\<bar>r\<bar> / q = of_int m + 1 / 2"
    using qpos by (simp add: tie)
  then have "rhe (\<bar>r\<bar> / q) = n"
    by (simp only: rhe_tie n)
  then have "round_mag \<bar>r\<bar> = of_int n * q"
    by (simp add: round_mag_def quantum_def e q)
  moreover have "0 < of_int n * q"
    using n0 by (simp add: q)
  ultimately show ?thesis
    using assms(1) fin v by (auto simp add: rnd_def Let_def)
qed

lemma rnd_overflow:
  assumes "huge \<le> \<bar>r\<bar>"
  shows "rnd r = (if 0 < r then PInf else NInf)"
proof -
  define y where "y = \<bar>r\<bar>"
  have ypos: "0 < y" and r0: "r \<noteq> 0"
    using assms by (auto simp add: y_def huge_def)
  have "(2::real) powr 1024 = 2 ^ 1024"
    by (rule powr_numeral) simp
  then have "2 powr 1024 \<le> y"
    using assms by (simp add: y_def huge_def)
  then have "1024 \<le> log 2 y"
    using ypos by (simp add: le_log_iff)
  then have "1024 \<le> \<lfloor>log 2 y\<rfloor>"
    by (simp add: le_floor_iff)
  then have e: "expo y = \<lfloor>log 2 y\<rfloor>" and e1024: "1024 \<le> expo y"
    by (simp_all add: expo_def)
  have qpos: "0 < quantum y"
    by (simp add: quantum_def)
  have "2 powr of_int (expo y) \<le> y"
    using ypos unfolding e by (simp add: powr_le_iff)
  then have lo: "2 powi (expo y) \<le> y"
    by (simp add: powr_real_of_int')
  have "(2::real) powi (52 + (expo y - 52)) = 2 powi 52 * 2 powi (expo y - 52)"
    by (rule power_int_add) simp
  then have split: "(2::real) powi (expo y) = 2 ^ 52 * 2 powi (expo y - 52)"
    by simp
  have "2 ^ 52 * quantum y \<le> y"
    using lo by (simp add: quantum_def split)
  then have "2 ^ 52 \<le> y / quantum y"
    using qpos by (simp add: field_simps)
  then have "(2 ^ 52 :: int) \<le> \<lfloor>y / quantum y\<rfloor>"
    by (simp add: le_floor_iff)
  moreover have "\<lfloor>y / quantum y\<rfloor> \<le> rhe (y / quantum y)"
    by (simp add: rhe_def Let_def)
  ultimately have "(2 ^ 52 :: int) \<le> rhe (y / quantum y)"
    by linarith
  then have "(2 ^ 52 :: real) \<le> of_int (rhe (y / quantum y))"
    by (metis of_int_le_iff of_int_numeral of_int_power)
  then have "2 ^ 52 * quantum y \<le> round_mag y"
    using qpos by (simp add: round_mag_def)
  moreover have "huge \<le> 2 ^ 52 * quantum y"
  proof -
    have "(2::real) powi 1024 \<le> 2 powi (expo y)"
      using e1024 by (intro power_int_increasing) simp_all
    then show ?thesis
      by (simp add: huge_def quantum_def split)
  qed
  ultimately have "huge \<le> round_mag y"
    by linarith
  then show ?thesis
    using r0 by (simp add: rnd_def Let_def y_def)
qed


lemma rnd_near:
  assumes y: "0 < y" and k: "y < 2 powi k" "- 1022 \<le> k" and d: "d = 2 powi (k - 53)"
    and lo: "d < y" and fin: "y + d < huge"
  shows "\<exists>v. rnd y = Num v \<and> y - d \<le> v \<and> v \<le> y + d"
proof -
  have "quantum y / 2 \<le> 2 powi (k - 52) / 2"
    using quantum_upper [OF y k] by simp
  also have "2 powi (k - 52) / 2 = (2::real) powi (k - 53)"
  proof -
    have "(2::real) powi (1 + (k - 53)) = 2 powi 1 * 2 powi (k - 53)"
      by (rule power_int_add) simp
    then show ?thesis by simp
  qed
  finally have "\<bar>round_mag y - y\<bar> \<le> d"
    using round_mag_error [of y] by (simp add: d)
  then have m: "y - d \<le> round_mag y" "round_mag y \<le> y + d"
    by linarith+
  then have "round_mag y \<noteq> 0" "\<not> huge \<le> round_mag y"
    using lo fin by linarith+
  then have "rnd y = Num (round_mag y)"
    using y by (simp add: rnd_def Let_def)
  then show ?thesis
    using m by blast
qed



subsection \<open>Single operations\<close>

text \<open>
  One rule for each operation on two given finite doubles. The exponent \<open>e\<close>, the quantum
  \<open>q\<close> and the integer \<open>n\<close> of the result \<open>n * q\<close> are given with the rule, and what is left
  to check are comparisons of rational numbers.
\<close>

lemma lit_eval:
  assumes "r \<noteq> 0" and "- 1022 \<le> e" and "e = - 1022 \<or> 2 powi e \<le> \<bar>r\<bar>"
    and "\<bar>r\<bar> < 2 powi (e + 1)" and "q = 2 powi (e - 52)"
    and "\<bar>\<bar>r\<bar> - of_int n * q\<bar> < q / 2" and "0 < n" and "of_int n * q < huge"
    and "v = (if 0 < r then of_int n * q else - (of_int n * q))"
  shows "lit r = Num v"
  unfolding lit_def using assms by (rule rnd_eval)

lemma js_add_eval:
  assumes "x + y \<noteq> 0" and "- 1022 \<le> e" and "e = - 1022 \<or> 2 powi e \<le> \<bar>x + y\<bar>"
    and "\<bar>x + y\<bar> < 2 powi (e + 1)" and "q = 2 powi (e - 52)"
    and "\<bar>\<bar>x + y\<bar> - of_int n * q\<bar> < q / 2" and "0 < n" and "of_int n * q < huge"
    and "v = (if 0 < x + y then of_int n * q else - (of_int n * q))"
  shows "js_add (Num x) (Num y) = Num v"
  using assms(1) rnd_eval [OF assms] by (simp add: js_add_def)

lemma js_sub_eval:
  assumes "x - y \<noteq> 0" and "- 1022 \<le> e" and "e = - 1022 \<or> 2 powi e \<le> \<bar>x - y\<bar>"
    and "\<bar>x - y\<bar> < 2 powi (e + 1)" and "q = 2 powi (e - 52)"
    and "\<bar>\<bar>x - y\<bar> - of_int n * q\<bar> < q / 2" and "0 < n" and "of_int n * q < huge"
    and "v = (if 0 < x - y then of_int n * q else - (of_int n * q))"
  shows "js_sub (Num x) (Num y) = Num v"
  using assms(1) rnd_eval [OF assms] by (cases "y = 0") (simp_all add: js_sub_def js_add_def)

lemma js_mul_eval:
  assumes "x * y \<noteq> 0" and "- 1022 \<le> e" and "e = - 1022 \<or> 2 powi e \<le> \<bar>x * y\<bar>"
    and "\<bar>x * y\<bar> < 2 powi (e + 1)" and "q = 2 powi (e - 52)"
    and "\<bar>\<bar>x * y\<bar> - of_int n * q\<bar> < q / 2" and "0 < n" and "of_int n * q < huge"
    and "v = (if 0 < x * y then of_int n * q else - (of_int n * q))"
  shows "js_mul (Num x) (Num y) = Num v"
  using assms(1) rnd_eval [OF assms] by (simp add: js_mul_def zero_js_def)

lemma js_square_eval:
  assumes "x * x \<noteq> 0" and "- 1022 \<le> e" and "e = - 1022 \<or> 2 powi e \<le> \<bar>x * x\<bar>"
    and "\<bar>x * x\<bar> < 2 powi (e + 1)" and "q = 2 powi (e - 52)"
    and "\<bar>\<bar>x * x\<bar> - of_int n * q\<bar> < q / 2" and "0 < n" and "of_int n * q < huge"
    and "v = (if 0 < x * x then of_int n * q else - (of_int n * q))"
  shows "js_square (Num x) = Num v"
  unfolding js_square_def using assms by (rule js_mul_eval)

lemma js_div_eval:
  assumes "x / y \<noteq> 0" and "- 1022 \<le> e" and "e = - 1022 \<or> 2 powi e \<le> \<bar>x / y\<bar>"
    and "\<bar>x / y\<bar> < 2 powi (e + 1)" and "q = 2 powi (e - 52)"
    and "\<bar>\<bar>x / y\<bar> - of_int n * q\<bar> < q / 2" and "0 < n" and "of_int n * q < huge"
    and "v = (if 0 < x / y then of_int n * q else - (of_int n * q))"
  shows "js_div (Num x) (Num y) = Num v"
  using assms(1) rnd_eval [OF assms] by (simp add: js_div_def zero_js_def)

lemma js_sqrt_eval:
  assumes x: "0 < x" and e: "- 1022 \<le> e" and lo: "(2 powi e)\<^sup>2 \<le> x"
    and hi: "x < (2 powi (e + 1))\<^sup>2" and q: "q = 2 powi (e - 52)"
    and n0: "0 < n"
    and below: "((of_int n - 1 / 2) * q)\<^sup>2 < x" and above: "x < ((of_int n + 1 / 2) * q)\<^sup>2"
    and fin: "of_int n * q < huge" and v: "v = of_int n * q"
  shows "js_sqrt (Num x) = Num v"
proof -
  have qpos: "0 < q"
    by (simp add: q)
  have s: "0 < sqrt x"
    using x by simp
  have "sqrt ((2 powi e)\<^sup>2) \<le> sqrt x"
    using lo by (simp only: real_sqrt_le_iff)
  then have lo': "2 powi e \<le> \<bar>sqrt x\<bar>"
    using s by simp
  have "sqrt x < sqrt ((2 powi (e + 1))\<^sup>2)"
    using hi by (simp only: real_sqrt_less_iff)
  then have hi': "\<bar>sqrt x\<bar> < 2 powi (e + 1)"
    using s by simp
  have nq: "0 \<le> (of_int n - 1 / 2) * q" "0 \<le> (of_int n + 1 / 2) * q"
    using n0 qpos by simp_all
  have "sqrt (((of_int n - 1 / 2) * q)\<^sup>2) < sqrt x"
    using below by (simp only: real_sqrt_less_iff)
  then have b: "(of_int n - 1 / 2) * q < sqrt x"
    using nq(1) by (simp only: real_sqrt_abs abs_of_nonneg)
  have "sqrt x < sqrt (((of_int n + 1 / 2) * q)\<^sup>2)"
    using above by (simp only: real_sqrt_less_iff)
  then have a: "sqrt x < (of_int n + 1 / 2) * q"
    using nq(2) by (simp only: real_sqrt_abs abs_of_nonneg)
  have up: "(of_int n + 1 / 2) * q = of_int n * q + q / 2"
    by (simp add: algebra_simps)
  have down: "(of_int n - 1 / 2) * q = of_int n * q - q / 2"
    by (simp add: algebra_simps)
  have "\<bar>sqrt x - of_int n * q\<bar> < q / 2"
    using a b unfolding up down by linarith
  then have near: "\<bar>\<bar>sqrt x\<bar> - of_int n * q\<bar> < q / 2"
    using s by simp
  have nz: "sqrt x \<noteq> 0"
    using s by simp
  have lo'': "e = - 1022 \<or> 2 powi e \<le> \<bar>sqrt x\<bar>"
    using lo' by simp
  have v': "v = (if 0 < sqrt x then of_int n * q else - (of_int n * q))"
    using s v by simp
  have "rnd (sqrt x) = Num v"
    using nz e lo'' hi' q near n0 fin v' by (rule rnd_eval)
  then show ?thesis
    using x by simp
qed

lemmas js_ops = js_add_def js_sub_def js_mul_def js_div_def js_square_def zero_js_def
  signed_zero_def signed_inf_def js_lt_def js_gt_def js_le_def js_ge_def Math_max_def Math_min_def

lemma lit_0: "lit 0 = Num 0"
  by (simp add: lit_def rnd_def)


lemma lit_8: "lit 8 = Num 8"
  by (rule lit_eval [where e = 3 and n = 4503599627370496 and q = "1 / 2 ^ 49"])
    (simp_all add: huge_def)

lemma dt_js_value: "dt_js = Num (5764607523034235 / 288230376151711744)"
  unfolding dt_js_def
  by (rule lit_eval [where e = "- 6" and n = 5764607523034235 and q = "1 / 2 ^ 58"])
    (simp_all add: huge_def)

lemma NaN_absorbs:
  "js_mul NaN a = NaN" "js_mul a NaN = NaN" "js_add a NaN = NaN" "js_add NaN a = NaN"
  "Math_max NaN a = NaN" "Math_min NaN a = NaN"
  by (simp_all add: js_mul_def js_add_def Math_max_def Math_min_def)

subsection \<open>Signs\<close>










subsection \<open>The eigenvalue solver with doubles\<close>



subsection \<open>The program at the inputs of the examples\<close>

text \<open>
  The functions of the program evaluated operation by operation at the inputs of the
  examples. Every step \<open>f\<^sub>i\<close> is one operation of the source on doubles.
\<close>

lemma double_evaluations:
  shows initial_params_js_positive:
      "js_gt (Xd_js initial_params_js) (Xd_prime_js initial_params_js) = True"
      "js_gt (Xd_prime_js initial_params_js) (lit 0) = True"
      "js_gt (XL_js initial_params_js) (lit 0) = True"
      "js_gt (Td0_prime_js initial_params_js) (lit 0) = True"
      "js_gt (Tq0_prime_js initial_params_js) (lit 0) = True"
    and extreme_params_js_positive:
      "js_gt (Xd_js extreme_params_js) (Xd_prime_js extreme_params_js) = True"
      "js_gt (Xd_prime_js extreme_params_js) (lit 0) = True"
      "js_gt (XL_js extreme_params_js) (lit 0) = True"
      "js_gt (Td0_prime_js extreme_params_js) (lit 0) = True"
      "js_gt (Tq0_prime_js extreme_params_js) (lit 0) = True"
    and stabilityCircle_js_initial:
      "stabilityCircle_js initial_params_js
        = \<lparr>G_center_js = Num 0, Bc_center_js = Num (3024059683195505 / 18014398509481984),
           R_js = Num (5998134908817531 / 288230376151711744)\<rparr>"
    and overflow_classifier:
      "checkStability_js (stabilityCircle_js initial_params_js) overflow_G_js initial_Bc_js
        = True"
    and overflow_eigen:
      "calculateEigenvalues_js initial_params_js overflow_G_js initial_Bc_js
        = \<lparr>real_js = NaN, imag_js = NaN, stable_js = False,
           oscillatory_js = Some True\<rparr>"
    and overflow_denom:
      "js_ge (eig_denom_js initial_params_js overflow_G_js initial_Bc_js) epsilon_js
        = True"
      "js_lt (eig_denom_js initial_params_js overflow_G_js initial_Bc_js) epsilon_js
        = False"
    and overflow_disc:
      "js_ge (eig_disc_js initial_params_js overflow_G_js initial_Bc_js) (lit 0)
        = False"
      "js_lt (eig_disc_js initial_params_js overflow_G_js initial_Bc_js) (lit 0)
        = False"
    and initial_two_a:
      "js_mul (lit 2) (eig_a_js initial_params_js) = Num 10"
    and overflow_K:
      "calculateK_js initial_params_js overflow_G_js initial_Bc_js = Num 0"
    and boundary_classifier:
      "checkStability_js (stabilityCircle_js initial_params_js) boundary_G_js boundary_Bc_js
        = False"
    and boundary_eigen:
      "calculateEigenvalues_js initial_params_js boundary_G_js boundary_Bc_js
        = \<lparr>real_js = Num (- (3 / 9007199254740992)),
           imag_js = Num (4872305817216995 / 288230376151711744), stable_js = True,
           oscillatory_js = Some True\<rparr>"
    and boundary_denom:
      "js_ge (eig_denom_js initial_params_js boundary_G_js boundary_Bc_js) epsilon_js
        = True"
      "js_lt (eig_denom_js initial_params_js boundary_G_js boundary_Bc_js) epsilon_js
        = False"
    and boundary_disc:
      "js_ge (eig_disc_js initial_params_js boundary_G_js boundary_Bc_js) (lit 0)
        = False"
      "js_lt (eig_disc_js initial_params_js boundary_G_js boundary_Bc_js) (lit 0)
        = True"
    and scenario_B_classifier:
      "checkStability_js (stabilityCircle_js initial_params_js) scenario_B_G_js scenario_B_Bc_js
        = True"
    and scenario_B_eigen:
      "calculateEigenvalues_js initial_params_js scenario_B_G_js scenario_B_Bc_js
        = \<lparr>real_js = Num (- (4911007693726941 / 18014398509481984)), imag_js = Num 0,
           stable_js = True, oscillatory_js = Some False\<rparr>"
    and scenario_B_denom:
      "js_ge (eig_denom_js initial_params_js scenario_B_G_js scenario_B_Bc_js) epsilon_js
        = True"
      "js_lt (eig_denom_js initial_params_js scenario_B_G_js scenario_B_Bc_js) epsilon_js
        = False"
    and scenario_B_disc:
      "js_ge (eig_disc_js initial_params_js scenario_B_G_js scenario_B_Bc_js) (lit 0)
        = True"
      "js_lt (eig_disc_js initial_params_js scenario_B_G_js scenario_B_Bc_js) (lit 0)
        = False"
    and degenerate_classifier:
      "checkStability_js (stabilityCircle_js initial_params_js) (lit 0) degenerate_Bc_js
        = True"
    and degenerate_eigen:
      "calculateEigenvalues_js initial_params_js (lit 0) degenerate_Bc_js
        = \<lparr>real_js = Num 0, imag_js = Num 0, stable_js = False,
           oscillatory_js = None\<rparr>"
    and degenerate_denom:
      "js_ge (eig_denom_js initial_params_js (lit 0) degenerate_Bc_js) epsilon_js
        = False"
      "js_lt (eig_denom_js initial_params_js (lit 0) degenerate_Bc_js) epsilon_js
        = True"
    and extreme_eigen:
      "calculateEigenvalues_js extreme_params_js boundary_G_js boundary_Bc_js
        = \<lparr>real_js = NegZero, imag_js = NaN, stable_js = False,
           oscillatory_js = Some True\<rparr>"
    and extreme_denom:
      "js_ge (eig_denom_js extreme_params_js boundary_G_js boundary_Bc_js) epsilon_js
        = True"
      "js_lt (eig_denom_js extreme_params_js boundary_G_js boundary_Bc_js) epsilon_js
        = False"
    and extreme_disc:
      "js_ge (eig_disc_js extreme_params_js boundary_G_js boundary_Bc_js) (lit 0)
        = False"
      "js_lt (eig_disc_js extreme_params_js boundary_G_js boundary_Bc_js) (lit 0)
        = True"
    and extreme_two_a:
      "js_mul (lit 2) (eig_a_js extreme_params_js) = PInf"
    and extreme_imag:
      "js_ge (imag_js (calculateEigenvalues_js extreme_params_js boundary_G_js boundary_Bc_js)) (lit 0)
        = False"
    and overflow_operating_point:
      "G_js (aggregate_js overflow_systemConfig_js initial_connected)
        = overflow_G_js"
      "Bc_js (aggregate_js overflow_systemConfig_js initial_connected)
        = initial_Bc_js"
    and clamp_bounds:
      "lit (4 / 10) = Num (3602879701896397 / 9007199254740992)"
      "lit (25 / 10) = Num (5 / 2)"
proof -
  have p1: "Xd_js initial_params_js = lit (18 / 10)"
    by (simp add: initial_params_js_def)
  have p2: "Xd_prime_js initial_params_js = lit (3 / 10)"
    by (simp add: initial_params_js_def)
  have p3: "XL_js initial_params_js = lit 5"
    by (simp add: initial_params_js_def)
  have p4: "Td0_prime_js initial_params_js = lit 5"
    by (simp add: initial_params_js_def)
  have p5: "Tq0_prime_js initial_params_js = lit 1"
    by (simp add: initial_params_js_def)
  have p6: "Xd_js extreme_params_js = lit (18 / 10)"
    by (simp add: extreme_params_js_def)
  have p7: "Xd_prime_js extreme_params_js = lit (3 / 10)"
    by (simp add: extreme_params_js_def)
  have p8: "XL_js extreme_params_js = lit 5"
    by (simp add: extreme_params_js_def)
  have p9: "Td0_prime_js extreme_params_js = lit (15 * 10 ^ 153)"
    by (simp add: extreme_params_js_def)
  have p10: "Tq0_prime_js extreme_params_js = lit (15 * 10 ^ 153)"
    by (simp add: extreme_params_js_def)
  have p11: "P_load1_js overflow_systemConfig_js = lit (10 ^ 154)"
    by (simp add: overflow_systemConfig_js_def initial_systemConfig_js_def)
  have p12: "P_load2_js overflow_systemConfig_js = lit (3 / 100)"
    by (simp add: overflow_systemConfig_js_def initial_systemConfig_js_def)
  have p13: "P_load3_js overflow_systemConfig_js = lit (2 / 100)"
    by (simp add: overflow_systemConfig_js_def initial_systemConfig_js_def)
  have p14: "Qc_cap1_js overflow_systemConfig_js = lit (4 / 100)"
    by (simp add: overflow_systemConfig_js_def initial_systemConfig_js_def)
  have p15: "Qc_cap2_js overflow_systemConfig_js = lit (2 / 100)"
    by (simp add: overflow_systemConfig_js_def initial_systemConfig_js_def)
  have p16: "Qc_cable_js overflow_systemConfig_js = lit (15 / 1000)"
    by (simp add: overflow_systemConfig_js_def initial_systemConfig_js_def)
  have p17: "V_js overflow_systemConfig_js = lit 1"
    by (simp add: overflow_systemConfig_js_def initial_systemConfig_js_def)
  have p18: "load1 initial_connected = True"
    by (simp add: initial_connected_def)
  have p19: "load2 initial_connected = True"
    by (simp add: initial_connected_def)
  have p20: "load3 initial_connected = True"
    by (simp add: initial_connected_def)
  have p21: "cap1 initial_connected = True"
    by (simp add: initial_connected_def)
  have p22: "cap2 initial_connected = True"
    by (simp add: initial_connected_def)
  have p23: "cable initial_connected = True"
    by (simp add: initial_connected_def)
  have f1: "lit (18 / 10) = Num (8106479329266893 / 4503599627370496)"
    by (rule lit_eval [where e = "0" and n = 8106479329266893 and q = "1 / 2 ^ 52"])
      (simp_all add: huge_def)
  have f2: "lit (3 / 10) = Num (5404319552844595 / 18014398509481984)"
    by (rule lit_eval [where e = "- 2" and n = 5404319552844595 and q = "1 / 2 ^ 54"])
      (simp_all add: huge_def)
  have f3: "lit 5 = Num 5"
    by (rule lit_eval [where e = "2" and n = 5629499534213120 and q = "1 / 2 ^ 50"])
      (simp_all add: huge_def)
  have f4: "lit 1 = Num 1"
    by (rule lit_eval [where e = "0" and n = 4503599627370496 and q = "1 / 2 ^ 52"])
      (simp_all add: huge_def)
  have f5: "lit (15 * 10 ^ 153) = Num (5038407080675317 * 2 ^ 460)"
    by (rule lit_eval [where e = "512" and n = 5038407080675317 and q = "2 ^ 460"])
      (simp_all add: huge_def)
  have f6: "lit (10 ^ 154) = Num (6717876107567089 * 2 ^ 459)"
    by (rule lit_eval [where e = "511" and n = 6717876107567089 and q = "2 ^ 459"])
      (simp_all add: huge_def)
  have f7: "lit (75 / 1000) = Num (5404319552844595 / 72057594037927936)"
    by (rule lit_eval [where e = "- 4" and n = 5404319552844595 and q = "1 / 2 ^ 56"])
      (simp_all add: huge_def)
  have f8: "lit (1225113838468139 / 10 ^ 18)
      = Num (2824920179922713 / 2305843009213693952)"
    by (rule lit_eval [where e = "- 10" and n = 5649840359845426 and q = "1 / 2 ^ 62"])
      (simp_all add: huge_def)
  have f9: "lit (1470949165472104 / 10 ^ 16) = Num (662456611350111 / 4503599627370496)"
    by (rule lit_eval [where e = "- 3" and n = 5299652890800888 and q = "1 / 2 ^ 55"])
      (simp_all add: huge_def)
  have f10: "lit (1 / 10) = Num (3602879701896397 / 36028797018963968)"
    by (rule lit_eval [where e = "- 4" and n = 7205759403792794 and q = "1 / 2 ^ 56"])
      (simp_all add: huge_def)
  have f11: "lit (15 / 100) = Num (5404319552844595 / 36028797018963968)"
    by (rule lit_eval [where e = "- 3" and n = 5404319552844595 and q = "1 / 2 ^ 55"])
      (simp_all add: huge_def)
  have f12: "lit 0 = Num 0"
    by (simp add: lit_def rnd_def)
  have f13: "lit (10 / 53) = Num (3398943114996601 / 18014398509481984)"
    by (rule lit_eval [where e = "- 3" and n = 6797886229993202 and q = "1 / 2 ^ 55"])
      (simp_all add: huge_def)
  have f14: "js_gt (Num (8106479329266893 / 4503599627370496)) (Num (5404319552844595 / 18014398509481984))
      = True"
    by (simp add: js_ops)
  have f15: "js_gt (Num (5404319552844595 / 18014398509481984)) (Num 0) = True"
    by (simp add: js_ops)
  have f16: "js_gt (Num 5) (Num 0) = True"
    by (simp add: js_ops)
  have f17: "js_gt (Num 1) (Num 0) = True"
    by (simp add: js_ops)
  have f18: "js_gt (Num (5038407080675317 * 2 ^ 460)) (Num 0) = True"
    by (simp add: js_ops)
  have f19: "js_add (Num 5) (Num (5404319552844595 / 18014398509481984))
      = Num (5967269506265907 / 1125899906842624)"
    by (rule js_add_eval [where e = "2" and n = 5967269506265907 and q = "1 / 2 ^ 50"])
      (simp_all add: huge_def)
  have f20: "js_add (Num 5) (Num (8106479329266893 / 4503599627370496))
      = Num (7656119366529843 / 1125899906842624)"
    by (rule js_add_eval [where e = "2" and n = 7656119366529843 and q = "1 / 2 ^ 50"])
      (simp_all add: huge_def)
  have f21: "lit (5 / 10) = Num (1 / 2)"
    by (rule lit_eval [where e = "- 1" and n = 4503599627370496 and q = "1 / 2 ^ 53"])
      (simp_all add: huge_def)
  have f22: "js_div (Num 1) (Num (5967269506265907 / 1125899906842624))
      = Num (3398943114996601 / 18014398509481984)"
    by (rule js_div_eval [where e = "- 3" and n = 6797886229993202 and q = "1 / 2 ^ 55"])
      (simp_all add: huge_def)
  have f23: "js_div (Num 1) (Num (7656119366529843 / 1125899906842624))
      = Num (5298352502788819 / 36028797018963968)"
    by (rule js_div_eval [where e = "- 3" and n = 5298352502788819 and q = "1 / 2 ^ 55"])
      (simp_all add: huge_def)
  have f24: "js_add (Num (3398943114996601 / 18014398509481984)) (Num (5298352502788819 / 36028797018963968))
      = Num (3024059683195505 / 9007199254740992)"
    proof -
    have "rnd ((3398943114996601 / 18014398509481984) + (5298352502788819 / 36028797018963968))
          = Num (3024059683195505 / 9007199254740992)"
      by (rule rnd_eval_tie [where e = "- 2" and n = 6048119366391010 and q = "1 / 2 ^ 54"
            and m = 6048119366391010])
        (simp_all add: huge_def)
    then show ?thesis
      by (simp add: js_add_def)
  qed
  have f25: "js_mul (Num (1 / 2)) (Num (3024059683195505 / 9007199254740992))
      = Num (3024059683195505 / 18014398509481984)"
    by (rule js_mul_eval [where e = "- 3" and n = 6048119366391010 and q = "1 / 2 ^ 55"])
      (simp_all add: huge_def)
  have f26: "js_sub (Num (8106479329266893 / 4503599627370496)) (Num (5404319552844595 / 18014398509481984))
      = Num (3 / 2)"
    by (rule js_sub_eval [where e = "0" and n = 6755399441055744 and q = "1 / 2 ^ 52"])
      (simp_all add: huge_def)
  have f27: "lit 2 = Num 2"
    by (rule lit_eval [where e = "1" and n = 4503599627370496 and q = "1 / 2 ^ 51"])
      (simp_all add: huge_def)
  have f28: "js_mul (Num 2) (Num (5967269506265907 / 1125899906842624))
      = Num (5967269506265907 / 562949953421312)"
    by (rule js_mul_eval [where e = "3" and n = 5967269506265907 and q = "1 / 2 ^ 49"])
      (simp_all add: huge_def)
  have f29: "js_mul (Num (5967269506265907 / 562949953421312)) (Num (7656119366529843 / 1125899906842624))
      = Num (5072179080326021 / 70368744177664)"
    by (rule js_mul_eval [where e = "6" and n = 5072179080326021 and q = "1 / 2 ^ 46"])
      (simp_all add: huge_def)
  have f30: "js_div (Num (3 / 2)) (Num (5072179080326021 / 70368744177664))
      = Num (5998134908817531 / 288230376151711744)"
    by (rule js_div_eval [where e = "- 6" and n = 5998134908817531 and q = "1 / 2 ^ 58"])
      (simp_all add: huge_def)
  have f31: "js_mul (Num (6717876107567089 * 2 ^ 459)) (Num (6717876107567089 * 2 ^ 459))
      = Num (156575653125701 * 2 ^ 976)"
    by (rule js_mul_eval [where e = "1023" and n = 5010420900022432 and q = "2 ^ 971"])
      (simp_all add: huge_def)
  have f32: "js_sub (Num (5404319552844595 / 72057594037927936)) (Num (3024059683195505 / 18014398509481984))
      = Num (- (6691919179937425 / 72057594037927936))"
    by (rule js_sub_eval [where e = "- 4" and n = 6691919179937425 and q = "1 / 2 ^ 56"])
      (simp_all add: huge_def)
  have f33: "js_square (Num (- (6691919179937425 / 72057594037927936)))
      = Num (4971776580521767 / 576460752303423488)"
    by (rule js_square_eval [where e = "- 7" and n = 4971776580521767 and q = "1 / 2 ^ 59"])
      (simp_all add: huge_def)
  have f34: "js_add (Num (156575653125701 * 2 ^ 976)) (Num (4971776580521767 / 576460752303423488))
      = Num (156575653125701 * 2 ^ 976)"
    by (rule js_add_eval [where e = "1023" and n = 5010420900022432 and q = "2 ^ 971"])
      (simp_all add: huge_def)
  have f35: "js_sqrt (Num (156575653125701 * 2 ^ 976)) = Num (6717876107567089 * 2 ^ 459)"
    by (rule js_sqrt_eval [where e = "511" and n = 6717876107567089 and q = "2 ^ 459"])
      (simp_all add: huge_def power2_eq_square)
  have f36: "js_gt (Num (6717876107567089 * 2 ^ 459)) (Num (5998134908817531 / 288230376151711744))
      = True"
    by (simp add: js_ops)
  have f37: "js_mul (Num (5404319552844595 / 72057594037927936)) (Num (5967269506265907 / 1125899906842624))
      = Num (447545212969943 / 1125899906842624)"
    by (rule js_mul_eval [where e = "- 2" and n = 7160723407519088 and q = "1 / 2 ^ 54"])
      (simp_all add: huge_def)
  have f38: "js_sub (Num 1) (Num (447545212969943 / 1125899906842624))
      = Num (678354693872681 / 1125899906842624)"
    by (rule js_sub_eval [where e = "- 1" and n = 5426837550981448 and q = "1 / 2 ^ 53"])
      (simp_all add: huge_def)
  have f39: "js_square (Num (678354693872681 / 1125899906842624))
      = Num (6539339248932645 / 18014398509481984)"
    by (rule js_square_eval [where e = "- 2" and n = 6539339248932645 and q = "1 / 2 ^ 54"])
      (simp_all add: huge_def)
  have f40: "js_mul (Num (6717876107567089 * 2 ^ 459)) (Num (5967269506265907 / 1125899906842624))
      = Num (8901185842526393 * 2 ^ 461)"
    by (rule js_mul_eval [where e = "513" and n = 8901185842526393 and q = "2 ^ 461"])
      (simp_all add: huge_def)
  have f41: "js_square (Num (8901185842526393 * 2 ^ 461)) = PInf"
    by (simp add: js_ops rnd_overflow huge_def)
  have f42: "js_add (Num (6539339248932645 / 18014398509481984)) PInf = PInf"
    by (simp add: js_ops)
  have f43: "lit (1 / 10 ^ 10) = Num (7737125245533627 / 77371252455336267181195264)"
    by (rule lit_eval [where e = "- 34" and n = 7737125245533627 and q = "1 / 2 ^ 86"])
      (simp_all add: huge_def)
  have f44: "js_lt PInf (Num (7737125245533627 / 77371252455336267181195264)) = False"
    by (simp add: js_ops)
  have f45: "js_div (Num (6717876107567089 * 2 ^ 459)) PInf = Num 0"
    by (simp add: js_ops)
  have f46: "js_mul (Num (5404319552844595 / 72057594037927936)) (Num (5404319552844595 / 72057594037927936))
      = Num (3242591731706757 / 576460752303423488)"
    by (rule js_mul_eval [where e = "- 8" and n = 6485183463413514 and q = "1 / 2 ^ 60"])
      (simp_all add: huge_def)
  have f47: "js_add (Num (156575653125701 * 2 ^ 976)) (Num (3242591731706757 / 576460752303423488))
      = Num (156575653125701 * 2 ^ 976)"
    by (rule js_add_eval [where e = "1023" and n = 5010420900022432 and q = "2 ^ 971"])
      (simp_all add: huge_def)
  have f48: "js_mul (Num (156575653125701 * 2 ^ 976)) (Num (5967269506265907 / 1125899906842624))
      = PInf"
    by (simp add: js_ops rnd_overflow huge_def)
  have f49: "js_sub (Num (5404319552844595 / 72057594037927936)) PInf = NInf"
    by (simp add: js_ops)
  have f50: "js_div NInf PInf = NaN"
    by (simp add: js_ops)
  have f51: "js_mul (Num 5) (Num 1) = Num 5"
    by (rule js_mul_eval [where e = "2" and n = 5629499534213120 and q = "1 / 2 ^ 50"])
      (simp_all add: huge_def)
  have f52: "js_mul NaN (Num (3 / 2)) = NaN"
    by (simp add: js_ops)
  have f53: "js_sub NaN (Num 1) = NaN"
    by (simp add: js_ops)
  have f54: "js_add (Num 5) (Num 1) = Num 6"
    by (rule js_add_eval [where e = "2" and n = 6755399441055744 and q = "1 / 2 ^ 50"])
      (simp_all add: huge_def)
  have f55: "js_neg (Num 6) = Num (- 6)"
    by simp
  have f56: "js_mul (Num (- 6)) NaN = NaN"
    by (simp add: js_ops)
  have f57: "js_square NaN = NaN"
    by (simp add: js_ops)
  have f58: "js_square (Num 0) = Num 0"
    by (simp add: js_ops)
  have f59: "js_mul (Num 0) (Num (3 / 2)) = Num 0"
    by (simp add: js_ops)
  have f60: "js_add NaN (Num 0) = NaN"
    by (simp add: js_ops)
  have f61: "js_mul NaN NaN = NaN"
    by (simp add: js_ops)
  have f62: "lit 4 = Num 4"
    by (rule lit_eval [where e = "2" and n = 4503599627370496 and q = "1 / 2 ^ 50"])
      (simp_all add: huge_def)
  have f63: "js_mul (Num 4) (Num 5) = Num 20"
    by (rule js_mul_eval [where e = "4" and n = 5629499534213120 and q = "1 / 2 ^ 48"])
      (simp_all add: huge_def)
  have f64: "js_mul (Num 20) NaN = NaN"
    by (simp add: js_ops)
  have f65: "js_sub NaN NaN = NaN"
    by (simp add: js_ops)
  have f66: "js_ge NaN (Num 0) = False"
    by (simp add: js_ops)
  have f67: "js_mul (Num 2) (Num 5) = Num 10"
    by (rule js_mul_eval [where e = "3" and n = 5629499534213120 and q = "1 / 2 ^ 49"])
      (simp_all add: huge_def)
  have f68: "js_neg NaN = NaN"
    by simp
  have f69: "js_div NaN (Num 10) = NaN"
    by (simp add: js_ops)
  have f70: "js_sqrt NaN = NaN"
    by simp
  have f71: "js_lt NaN (Num 0) = False"
    by (simp add: js_ops)
  have f72: "js_ge PInf (Num (7737125245533627 / 77371252455336267181195264)) = True"
    by (simp add: js_ops)
  have f73: "js_sqrt PInf = PInf"
    by simp
  have f74: "js_div (Num 1) PInf = Num 0"
    by (simp add: js_ops)
  have f75: "js_mul (Num (2824920179922713 / 2305843009213693952)) (Num (2824920179922713 / 2305843009213693952))
      = Num (1771954588155505 / 1180591620717411303424)"
    by (rule js_mul_eval [where e = "- 20" and n = 7087818352622020 and q = "1 / 2 ^ 72"])
      (simp_all add: huge_def)
  have f76: "js_sub (Num (662456611350111 / 4503599627370496)) (Num (3024059683195505 / 18014398509481984))
      = Num (- (374233237795061 / 18014398509481984))"
    by (rule js_sub_eval [where e = "- 6" and n = 5987731804720976 and q = "1 / 2 ^ 58"])
      (simp_all add: huge_def)
  have f77: "js_square (Num (- (374233237795061 / 18014398509481984)))
      = Num (1990237539510171 / 4611686018427387904)"
    by (rule js_square_eval [where e = "- 12" and n = 7960950158040684 and q = "1 / 2 ^ 64"])
      (simp_all add: huge_def)
  have f78: "js_add (Num (1771954588155505 / 1180591620717411303424)) (Num (1990237539510171 / 4611686018427387904))
      = Num (3994318474240307 / 9223372036854775808)"
    by (rule js_add_eval [where e = "- 12" and n = 7988636948480614 and q = "1 / 2 ^ 64"])
      (simp_all add: huge_def)
  have f79: "js_sqrt (Num (3994318474240307 / 9223372036854775808))
      = Num (5998134908817529 / 288230376151711744)"
    by (rule js_sqrt_eval [where e = "- 6" and n = 5998134908817529 and q = "1 / 2 ^ 58"])
      (simp_all add: huge_def power2_eq_square)
  have f80: "js_gt (Num (5998134908817529 / 288230376151711744)) (Num (5998134908817531 / 288230376151711744))
      = False"
    by (simp add: js_ops)
  have f81: "js_mul (Num (662456611350111 / 4503599627370496)) (Num (5967269506265907 / 1125899906842624))
      = Num (877755010038897 / 1125899906842624)"
    by (rule js_mul_eval [where e = "- 1" and n = 7022040080311176 and q = "1 / 2 ^ 53"])
      (simp_all add: huge_def)
  have f82: "js_sub (Num 1) (Num (877755010038897 / 1125899906842624))
      = Num (248144896803727 / 1125899906842624)"
    by (rule js_sub_eval [where e = "- 3" and n = 7940636697719264 and q = "1 / 2 ^ 55"])
      (simp_all add: huge_def)
  have f83: "js_square (Num (248144896803727 / 1125899906842624))
      = Num (7000368192363149 / 144115188075855872)"
    by (rule js_square_eval [where e = "- 5" and n = 7000368192363149 and q = "1 / 2 ^ 57"])
      (simp_all add: huge_def)
  have f84: "js_mul (Num (2824920179922713 / 2305843009213693952)) (Num (5967269506265907 / 1125899906842624))
      = Num (7486038476795189 / 1152921504606846976)"
    by (rule js_mul_eval [where e = "- 8" and n = 7486038476795189 and q = "1 / 2 ^ 60"])
      (simp_all add: huge_def)
  have f85: "js_square (Num (7486038476795189 / 1152921504606846976))
      = Num (777721943457627 / 18446744073709551616)"
    by (rule js_square_eval [where e = "- 15" and n = 6221775547661016 and q = "1 / 2 ^ 67"])
      (simp_all add: huge_def)
  have f86: "js_add (Num (7000368192363149 / 144115188075855872)) (Num (777721943457627 / 18446744073709551616))
      = Num (1751611036261603 / 36028797018963968)"
    by (rule js_add_eval [where e = "- 5" and n = 7006444145046412 and q = "1 / 2 ^ 57"])
      (simp_all add: huge_def)
  have f87: "js_lt (Num (1751611036261603 / 36028797018963968)) (Num (7737125245533627 / 77371252455336267181195264))
      = False"
    by (simp add: js_ops)
  have f88: "js_div (Num (2824920179922713 / 2305843009213693952)) (Num (1751611036261603 / 36028797018963968))
      = Num (7263204676309911 / 288230376151711744)"
    by (rule js_div_eval [where e = "- 6" and n = 7263204676309911 and q = "1 / 2 ^ 58"])
      (simp_all add: huge_def)
  have f89: "js_mul (Num (662456611350111 / 4503599627370496)) (Num (662456611350111 / 4503599627370496))
      = Num (779551999701539 / 36028797018963968)"
    by (rule js_mul_eval [where e = "- 6" and n = 6236415997612312 and q = "1 / 2 ^ 58"])
      (simp_all add: huge_def)
  have f90: "js_add (Num (1771954588155505 / 1180591620717411303424)) (Num (779551999701539 / 36028797018963968))
      = Num (779606075464117 / 36028797018963968)"
    by (rule js_add_eval [where e = "- 6" and n = 6236848603712936 and q = "1 / 2 ^ 58"])
      (simp_all add: huge_def)
  have f91: "js_mul (Num (779606075464117 / 36028797018963968)) (Num (5967269506265907 / 1125899906842624))
      = Num (1032978049989955 / 9007199254740992)"
    by (rule js_mul_eval [where e = "- 4" and n = 8263824399919640 and q = "1 / 2 ^ 56"])
      (simp_all add: huge_def)
  have f92: "js_sub (Num (662456611350111 / 4503599627370496)) (Num (1032978049989955 / 9007199254740992))
      = Num (291935172710267 / 9007199254740992)"
    by (rule js_sub_eval [where e = "- 5" and n = 4670962763364272 and q = "1 / 2 ^ 57"])
      (simp_all add: huge_def)
  have f93: "js_div (Num (291935172710267 / 9007199254740992)) (Num (1751611036261603 / 36028797018963968))
      = Num (3002399751580329 / 4503599627370496)"
    by (rule js_div_eval [where e = "- 1" and n = 6004799503160658 and q = "1 / 2 ^ 53"])
      (simp_all add: huge_def)
  have f94: "js_mul (Num (3002399751580329 / 4503599627370496)) (Num (3 / 2))
      = Num (9007199254740987 / 9007199254740992)"
    by (rule js_mul_eval [where e = "- 1" and n = 9007199254740987 and q = "1 / 2 ^ 53"])
      (simp_all add: huge_def)
  have f95: "js_sub (Num (9007199254740987 / 9007199254740992)) (Num 1)
      = Num (- (5 / 9007199254740992))"
    by (rule js_sub_eval [where e = "- 51" and n = 5629499534213120 and q = "1 / 2 ^ 103"])
      (simp_all add: huge_def)
  have f96: "js_mul (Num (- 6)) (Num (- (5 / 9007199254740992)))
      = Num (15 / 4503599627370496)"
    by (rule js_mul_eval [where e = "- 49" and n = 8444249301319680 and q = "1 / 2 ^ 101"])
      (simp_all add: huge_def)
  have f97: "js_square (Num (- (5 / 9007199254740992)))
      = Num (25 / 81129638414606681695789005144064)"
    by (rule js_square_eval [where e = "- 102" and n = 7036874417766400 and q = "1 / 2 ^ 154"])
      (simp_all add: huge_def)
  have f98: "js_square (Num (7263204676309911 / 288230376151711744))
      = Num (5856886328144979 / 9223372036854775808)"
    by (rule js_square_eval [where e = "- 11" and n = 5856886328144979 and q = "1 / 2 ^ 63"])
      (simp_all add: huge_def)
  have f99: "js_mul (Num (5856886328144979 / 9223372036854775808)) (Num (3 / 2))
      = Num (2196332373054367 / 2305843009213693952)"
    proof -
    have "rnd ((5856886328144979 / 9223372036854775808) * (3 / 2))
          = Num (2196332373054367 / 2305843009213693952)"
      by (rule rnd_eval_tie [where e = "- 11" and n = 8785329492217468 and q = "1 / 2 ^ 63"
            and m = 8785329492217468])
        (simp_all add: huge_def)
    then show ?thesis
      by (simp add: js_square_def js_mul_def zero_js_def)
  qed
  have f100: "js_mul (Num (2196332373054367 / 2305843009213693952)) (Num (3 / 2))
      = Num (6588997119163101 / 4611686018427387904)"
    by (rule js_mul_eval [where e = "- 10" and n = 6588997119163101 and q = "1 / 2 ^ 62"])
      (simp_all add: huge_def)
  have f101: "js_add (Num (25 / 81129638414606681695789005144064)) (Num (6588997119163101 / 4611686018427387904))
      = Num (6588997119163101 / 4611686018427387904)"
    by (rule js_add_eval [where e = "- 10" and n = 6588997119163101 and q = "1 / 2 ^ 62"])
      (simp_all add: huge_def)
  have f102: "js_mul (Num (15 / 4503599627370496)) (Num (15 / 4503599627370496))
      = Num (225 / 20282409603651670423947251286016)"
    by (rule js_mul_eval [where e = "- 97" and n = 7916483719987200 and q = "1 / 2 ^ 149"])
      (simp_all add: huge_def)
  have f103: "js_mul (Num 20) (Num (6588997119163101 / 4611686018427387904))
      = Num (2059061599738469 / 72057594037927936)"
    by (rule js_mul_eval [where e = "- 6" and n = 8236246398953876 and q = "1 / 2 ^ 58"])
      (simp_all add: huge_def)
  have f104: "js_sub (Num (225 / 20282409603651670423947251286016)) (Num (2059061599738469 / 72057594037927936))
      = Num (- (2059061599738469 / 72057594037927936))"
    by (rule js_sub_eval [where e = "- 6" and n = 8236246398953876 and q = "1 / 2 ^ 58"])
      (simp_all add: huge_def)
  have f105: "js_ge (Num (- (2059061599738469 / 72057594037927936))) (Num 0) = False"
    by (simp add: js_ops)
  have f106: "js_neg (Num (15 / 4503599627370496)) = Num (- (15 / 4503599627370496))"
    by simp
  have f107: "js_div (Num (- (15 / 4503599627370496))) (Num 10)
      = Num (- (3 / 9007199254740992))"
    by (rule js_div_eval [where e = "- 52" and n = 6755399441055744 and q = "1 / 2 ^ 104"])
      (simp_all add: huge_def)
  have f108: "js_neg (Num (- (2059061599738469 / 72057594037927936)))
      = Num (2059061599738469 / 72057594037927936)"
    by simp
  have f109: "js_sqrt (Num (2059061599738469 / 72057594037927936))
      = Num (1522595567880311 / 9007199254740992)"
    by (rule js_sqrt_eval [where e = "- 3" and n = 6090382271521244 and q = "1 / 2 ^ 55"])
      (simp_all add: huge_def power2_eq_square)
  have f110: "js_div (Num (1522595567880311 / 9007199254740992)) (Num 10)
      = Num (4872305817216995 / 288230376151711744)"
    by (rule js_div_eval [where e = "- 6" and n = 4872305817216995 and q = "1 / 2 ^ 58"])
      (simp_all add: huge_def)
  have f111: "js_lt (Num (- (3 / 9007199254740992))) (Num 0) = True"
    by (simp add: js_ops)
  have f112: "js_ge (Num (1751611036261603 / 36028797018963968)) (Num (7737125245533627 / 77371252455336267181195264))
      = True"
    by (simp add: js_ops)
  have f113: "js_lt (Num (- (2059061599738469 / 72057594037927936))) (Num 0) = True"
    by (simp add: js_ops)
  have f114: "js_mul (Num (3602879701896397 / 36028797018963968)) (Num (3602879701896397 / 36028797018963968))
      = Num (1441151880758559 / 144115188075855872)"
    by (rule js_mul_eval [where e = "- 7" and n = 5764607523034236 and q = "1 / 2 ^ 59"])
      (simp_all add: huge_def)
  have f115: "js_sub (Num (5404319552844595 / 36028797018963968)) (Num (3024059683195505 / 18014398509481984))
      = Num (- (643799813546415 / 36028797018963968))"
    by (rule js_sub_eval [where e = "- 6" and n = 5150398508371320 and q = "1 / 2 ^ 58"])
      (simp_all add: huge_def)
  have f116: "js_square (Num (- (643799813546415 / 36028797018963968)))
      = Num (5890089481715659 / 18446744073709551616)"
    by (rule js_square_eval [where e = "- 12" and n = 5890089481715659 and q = "1 / 2 ^ 64"])
      (simp_all add: huge_def)
  have f117: "js_add (Num (1441151880758559 / 144115188075855872)) (Num (5890089481715659 / 18446744073709551616))
      = Num (2974336409668925 / 288230376151711744)"
    by (rule js_add_eval [where e = "- 7" and n = 5948672819337850 and q = "1 / 2 ^ 59"])
      (simp_all add: huge_def)
  have f118: "js_sqrt (Num (2974336409668925 / 288230376151711744))
      = Num (228746758397963 / 2251799813685248)"
    by (rule js_sqrt_eval [where e = "- 4" and n = 7319896268734816 and q = "1 / 2 ^ 56"])
      (simp_all add: huge_def power2_eq_square)
  have f119: "js_gt (Num (228746758397963 / 2251799813685248)) (Num (5998134908817531 / 288230376151711744))
      = True"
    by (simp add: js_ops)
  have f120: "js_mul (Num (5404319552844595 / 36028797018963968)) (Num (5967269506265907 / 1125899906842624))
      = Num (447545212969943 / 562949953421312)"
    by (rule js_mul_eval [where e = "- 1" and n = 7160723407519088 and q = "1 / 2 ^ 53"])
      (simp_all add: huge_def)
  have f121: "js_sub (Num 1) (Num (447545212969943 / 562949953421312))
      = Num (115404740451369 / 562949953421312)"
    by (rule js_sub_eval [where e = "- 3" and n = 7385903388887616 and q = "1 / 2 ^ 55"])
      (simp_all add: huge_def)
  have f122: "js_square (Num (115404740451369 / 562949953421312))
      = Num (6056440778887847 / 144115188075855872)"
    by (rule js_square_eval [where e = "- 5" and n = 6056440778887847 and q = "1 / 2 ^ 57"])
      (simp_all add: huge_def)
  have f123: "js_mul (Num (3602879701896397 / 36028797018963968)) (Num (5967269506265907 / 1125899906842624))
      = Num (2386907802506363 / 4503599627370496)"
    by (rule js_mul_eval [where e = "- 1" and n = 4773815605012726 and q = "1 / 2 ^ 53"])
      (simp_all add: huge_def)
  have f124: "js_square (Num (2386907802506363 / 4503599627370496))
      = Num (2530122270656745 / 9007199254740992)"
    by (rule js_square_eval [where e = "- 2" and n = 5060244541313490 and q = "1 / 2 ^ 54"])
      (simp_all add: huge_def)
  have f125: "js_add (Num (6056440778887847 / 144115188075855872)) (Num (2530122270656745 / 9007199254740992))
      = Num (5817299638674471 / 18014398509481984)"
    by (rule js_add_eval [where e = "- 2" and n = 5817299638674471 and q = "1 / 2 ^ 54"])
      (simp_all add: huge_def)
  have f126: "js_lt (Num (5817299638674471 / 18014398509481984)) (Num (7737125245533627 / 77371252455336267181195264))
      = False"
    by (simp add: js_ops)
  have f127: "js_div (Num (3602879701896397 / 36028797018963968)) (Num (5817299638674471 / 18014398509481984))
      = Num (1394627120034217 / 4503599627370496)"
    by (rule js_div_eval [where e = "- 2" and n = 5578508480136868 and q = "1 / 2 ^ 54"])
      (simp_all add: huge_def)
  have f128: "js_mul (Num (5404319552844595 / 36028797018963968)) (Num (5404319552844595 / 36028797018963968))
      = Num (3242591731706757 / 144115188075855872)"
    by (rule js_mul_eval [where e = "- 6" and n = 6485183463413514 and q = "1 / 2 ^ 58"])
      (simp_all add: huge_def)
  have f129: "js_add (Num (1441151880758559 / 144115188075855872)) (Num (3242591731706757 / 144115188075855872))
      = Num (1170935903116329 / 36028797018963968)"
    by (rule js_add_eval [where e = "- 5" and n = 4683743612465316 and q = "1 / 2 ^ 57"])
      (simp_all add: huge_def)
  have f130: "js_mul (Num (1170935903116329 / 36028797018963968)) (Num (5967269506265907 / 1125899906842624))
      = Num (6205960286516543 / 36028797018963968)"
    by (rule js_mul_eval [where e = "- 3" and n = 6205960286516543 and q = "1 / 2 ^ 55"])
      (simp_all add: huge_def)
  have f131: "js_sub (Num (5404319552844595 / 36028797018963968)) (Num (6205960286516543 / 36028797018963968))
      = Num (- (200410183417987 / 9007199254740992))"
    by (rule js_sub_eval [where e = "- 6" and n = 6413125869375584 and q = "1 / 2 ^ 58"])
      (simp_all add: huge_def)
  have f132: "js_div (Num (- (200410183417987 / 9007199254740992))) (Num (5817299638674471 / 18014398509481984))
      = Num (- (2482436273660905 / 36028797018963968))"
    by (rule js_div_eval [where e = "- 4" and n = 4964872547321810 and q = "1 / 2 ^ 56"])
      (simp_all add: huge_def)
  have f133: "js_mul (Num (- (2482436273660905 / 36028797018963968))) (Num (3 / 2))
      = Num (- (7447308820982715 / 72057594037927936))"
    by (rule js_mul_eval [where e = "- 4" and n = 7447308820982715 and q = "1 / 2 ^ 56"])
      (simp_all add: huge_def)
  have f134: "js_sub (Num (- (7447308820982715 / 72057594037927936))) (Num 1)
      = Num (- (1242264107170479 / 1125899906842624))"
    by (rule js_sub_eval [where e = "0" and n = 4969056428681916 and q = "1 / 2 ^ 52"])
      (simp_all add: huge_def)
  have f135: "js_mul (Num (- 6)) (Num (- (1242264107170479 / 1125899906842624)))
      = Num (3726792321511437 / 562949953421312)"
    by (rule js_mul_eval [where e = "2" and n = 7453584643022874 and q = "1 / 2 ^ 50"])
      (simp_all add: huge_def)
  have f136: "js_square (Num (- (1242264107170479 / 1125899906842624)))
      = Num (5482619201174783 / 4503599627370496)"
    by (rule js_square_eval [where e = "0" and n = 5482619201174783 and q = "1 / 2 ^ 52"])
      (simp_all add: huge_def)
  have f137: "js_square (Num (1394627120034217 / 4503599627370496))
      = Num (6909974117998751 / 72057594037927936)"
    by (rule js_square_eval [where e = "- 4" and n = 6909974117998751 and q = "1 / 2 ^ 56"])
      (simp_all add: huge_def)
  have f138: "js_mul (Num (6909974117998751 / 72057594037927936)) (Num (3 / 2))
      = Num (5182480588499063 / 36028797018963968)"
    by (rule js_mul_eval [where e = "- 3" and n = 5182480588499063 and q = "1 / 2 ^ 55"])
      (simp_all add: huge_def)
  have f139: "js_mul (Num (5182480588499063 / 36028797018963968)) (Num (3 / 2))
      = Num (3886860441374297 / 18014398509481984)"
    proof -
    have "rnd ((5182480588499063 / 36028797018963968) * (3 / 2))
          = Num (3886860441374297 / 18014398509481984)"
      by (rule rnd_eval_tie [where e = "- 3" and n = 7773720882748594 and q = "1 / 2 ^ 55"
            and m = 7773720882748594])
        (simp_all add: huge_def)
    then show ?thesis
      by (simp add: js_square_def js_mul_def zero_js_def)
  qed
  have f140: "js_add (Num (5482619201174783 / 4503599627370496)) (Num (3886860441374297 / 18014398509481984))
      = Num (6454334311518357 / 4503599627370496)"
    by (rule js_add_eval [where e = "0" and n = 6454334311518357 and q = "1 / 2 ^ 52"])
      (simp_all add: huge_def)
  have f141: "js_mul (Num (3726792321511437 / 562949953421312)) (Num (3726792321511437 / 562949953421312))
      = Num (3083973300660815 / 70368744177664)"
    by (rule js_mul_eval [where e = "5" and n = 6167946601321630 and q = "1 / 2 ^ 47"])
      (simp_all add: huge_def)
  have f142: "js_mul (Num 20) (Num (6454334311518357 / 4503599627370496))
      = Num (4033958944698973 / 140737488355328)"
    by (rule js_mul_eval [where e = "4" and n = 8067917889397946 and q = "1 / 2 ^ 48"])
      (simp_all add: huge_def)
  have f143: "js_sub (Num (3083973300660815 / 70368744177664)) (Num (4033958944698973 / 140737488355328))
      = Num (2133987656622657 / 140737488355328)"
    by (rule js_sub_eval [where e = "3" and n = 8535950626490628 and q = "1 / 2 ^ 49"])
      (simp_all add: huge_def)
  have f144: "js_ge (Num (2133987656622657 / 140737488355328)) (Num 0) = True"
    by (simp add: js_ops)
  have f145: "js_sqrt (Num (2133987656622657 / 140737488355328))
      = Num (274012802152721 / 70368744177664)"
    by (rule js_sqrt_eval [where e = "1" and n = 8768409668887072 and q = "1 / 2 ^ 51"])
      (simp_all add: huge_def power2_eq_square)
  have f146: "js_neg (Num (3726792321511437 / 562949953421312))
      = Num (- (3726792321511437 / 562949953421312))"
    by simp
  have f147: "js_add (Num (- (3726792321511437 / 562949953421312))) (Num (274012802152721 / 70368744177664))
      = Num (- (1534689904289669 / 562949953421312))"
    by (rule js_add_eval [where e = "1" and n = 6138759617158676 and q = "1 / 2 ^ 51"])
      (simp_all add: huge_def)
  have f148: "js_div (Num (- (1534689904289669 / 562949953421312))) (Num 10)
      = Num (- (4911007693726941 / 18014398509481984))"
    by (rule js_div_eval [where e = "- 2" and n = 4911007693726941 and q = "1 / 2 ^ 54"])
      (simp_all add: huge_def)
  have f149: "js_sub (Num (- (3726792321511437 / 562949953421312))) (Num (274012802152721 / 70368744177664))
      = Num (- (5918894738733205 / 562949953421312))"
    by (rule js_sub_eval [where e = "3" and n = 5918894738733205 and q = "1 / 2 ^ 49"])
      (simp_all add: huge_def)
  have f150: "js_div (Num (- (5918894738733205 / 562949953421312))) (Num 10)
      = Num (- (1183778947746641 / 1125899906842624))"
    by (rule js_div_eval [where e = "0" and n = 4735115790986564 and q = "1 / 2 ^ 52"])
      (simp_all add: huge_def)
  have f151: "js_lt (Num (- (4911007693726941 / 18014398509481984))) (Num 0) = True"
    by (simp add: js_ops)
  have f152: "js_lt (Num (- (1183778947746641 / 1125899906842624))) (Num 0) = True"
    by (simp add: js_ops)
  have f153: "Math_max (Num (- (4911007693726941 / 18014398509481984))) (Num (- (1183778947746641 / 1125899906842624)))
      = Num (- (4911007693726941 / 18014398509481984))"
    by (simp add: js_ops)
  have f154: "js_ge (Num (5817299638674471 / 18014398509481984)) (Num (7737125245533627 / 77371252455336267181195264))
      = True"
    by (simp add: js_ops)
  have f155: "js_lt (Num (2133987656622657 / 140737488355328)) (Num 0) = False"
    by (simp add: js_ops)
  have f156: "js_mul (Num 0) (Num 0) = Num 0"
    by (simp add: js_ops)
  have f157: "js_sub (Num (3398943114996601 / 18014398509481984)) (Num (3024059683195505 / 18014398509481984))
      = Num (46860428975137 / 2251799813685248)"
    by (rule js_sub_eval [where e = "- 6" and n = 5998134908817536 and q = "1 / 2 ^ 58"])
      (simp_all add: huge_def)
  have f158: "js_square (Num (46860428975137 / 2251799813685248))
      = Num (998579618560079 / 2305843009213693952)"
    by (rule js_square_eval [where e = "- 12" and n = 7988636948480632 and q = "1 / 2 ^ 64"])
      (simp_all add: huge_def)
  have f159: "js_add (Num 0) (Num (998579618560079 / 2305843009213693952))
      = Num (998579618560079 / 2305843009213693952)"
    by (rule js_add_eval [where e = "- 12" and n = 7988636948480632 and q = "1 / 2 ^ 64"])
      (simp_all add: huge_def)
  have f160: "js_sqrt (Num (998579618560079 / 2305843009213693952))
      = Num (46860428975137 / 2251799813685248)"
    by (rule js_sqrt_eval [where e = "- 6" and n = 5998134908817536 and q = "1 / 2 ^ 58"])
      (simp_all add: huge_def power2_eq_square)
  have f161: "js_gt (Num (46860428975137 / 2251799813685248)) (Num (5998134908817531 / 288230376151711744))
      = True"
    by (simp add: js_ops)
  have f162: "js_mul (Num (3398943114996601 / 18014398509481984)) (Num (5967269506265907 / 1125899906842624))
      = Num 1"
    by (rule js_mul_eval [where e = "0" and n = 4503599627370496 and q = "1 / 2 ^ 52"])
      (simp_all add: huge_def)
  have f163: "js_sub (Num 1) (Num 1) = Num 0"
    by (simp add: js_ops)
  have f164: "js_mul (Num 0) (Num (5967269506265907 / 1125899906842624)) = Num 0"
    by (simp add: js_ops)
  have f165: "js_add (Num 0) (Num 0) = Num 0"
    by (simp add: js_ops)
  have f166: "js_lt (Num 0) (Num (7737125245533627 / 77371252455336267181195264)) = True"
    by (simp add: js_ops)
  have f167: "js_ge (Num 0) (Num (7737125245533627 / 77371252455336267181195264)) = False"
    by (simp add: js_ops)
  have f168: "js_mul (Num (5038407080675317 * 2 ^ 460)) (Num (5038407080675317 * 2 ^ 460))
      = PInf"
    by (simp add: js_ops rnd_overflow huge_def)
  have f169: "js_add (Num (5038407080675317 * 2 ^ 460)) (Num (5038407080675317 * 2 ^ 460))
      = Num (5038407080675317 * 2 ^ 461)"
    by (rule js_add_eval [where e = "513" and n = 5038407080675317 and q = "2 ^ 461"])
      (simp_all add: huge_def)
  have f170: "js_neg (Num (5038407080675317 * 2 ^ 461)) = Num (- 5038407080675317 * 2 ^ 461)"
    by simp
  have f171: "js_mul (Num (- 5038407080675317 * 2 ^ 461)) (Num (- (5 / 9007199254740992)))
      = Num (3149004425422073 * 2 ^ 411)"
    by (rule js_mul_eval [where e = "462" and n = 6298008850844146 and q = "2 ^ 410"])
      (simp_all add: huge_def)
  have f172: "js_mul (Num (3149004425422073 * 2 ^ 411)) (Num (3149004425422073 * 2 ^ 411))
      = Num (4403690244160341 * 2 ^ 873)"
    by (rule js_mul_eval [where e = "924" and n = 8807380488320682 and q = "2 ^ 872"])
      (simp_all add: huge_def)
  have f173: "js_mul (Num 4) PInf = PInf"
    by (simp add: js_ops)
  have f174: "js_mul PInf (Num (6588997119163101 / 4611686018427387904)) = PInf"
    by (simp add: js_ops)
  have f175: "js_sub (Num (4403690244160341 * 2 ^ 873)) PInf = NInf"
    by (simp add: js_ops)
  have f176: "js_ge NInf (Num 0) = False"
    by (simp add: js_ops)
  have f177: "js_mul (Num 2) PInf = PInf"
    by (simp add: js_ops)
  have f178: "js_neg (Num (3149004425422073 * 2 ^ 411)) = Num (- 3149004425422073 * 2 ^ 411)"
    by simp
  have f179: "js_div (Num (- 3149004425422073 * 2 ^ 411)) PInf = NegZero"
    by (simp add: js_ops)
  have f180: "js_neg NInf = PInf"
    by simp
  have f181: "js_div PInf PInf = NaN"
    by (simp add: js_ops)
  have f182: "js_lt NegZero (Num 0) = False"
    by (simp add: js_ops)
  have f183: "js_lt NInf (Num 0) = True"
    by (simp add: js_ops)
  have f184: "lit (3 / 100) = Num (1080863910568919 / 36028797018963968)"
    by (rule lit_eval [where e = "- 6" and n = 8646911284551352 and q = "1 / 2 ^ 58"])
      (simp_all add: huge_def)
  have f185: "lit (2 / 100) = Num (5764607523034235 / 288230376151711744)"
    by (rule lit_eval [where e = "- 6" and n = 5764607523034235 and q = "1 / 2 ^ 58"])
      (simp_all add: huge_def)
  have f186: "lit (4 / 100) = Num (5764607523034235 / 144115188075855872)"
    by (rule lit_eval [where e = "- 5" and n = 5764607523034235 and q = "1 / 2 ^ 57"])
      (simp_all add: huge_def)
  have f187: "lit (15 / 1000) = Num (1080863910568919 / 72057594037927936)"
    by (rule lit_eval [where e = "- 7" and n = 8646911284551352 and q = "1 / 2 ^ 59"])
      (simp_all add: huge_def)
  have f188: "js_mul (Num 1) (Num 1) = Num 1"
    by (rule js_mul_eval [where e = "0" and n = 4503599627370496 and q = "1 / 2 ^ 52"])
      (simp_all add: huge_def)
  have f189: "js_add (Num 0) (Num (6717876107567089 * 2 ^ 459))
      = Num (6717876107567089 * 2 ^ 459)"
    by (rule js_add_eval [where e = "511" and n = 6717876107567089 and q = "2 ^ 459"])
      (simp_all add: huge_def)
  have f190: "js_add (Num (6717876107567089 * 2 ^ 459)) (Num (1080863910568919 / 36028797018963968))
      = Num (6717876107567089 * 2 ^ 459)"
    by (rule js_add_eval [where e = "511" and n = 6717876107567089 and q = "2 ^ 459"])
      (simp_all add: huge_def)
  have f191: "js_add (Num (6717876107567089 * 2 ^ 459)) (Num (5764607523034235 / 288230376151711744))
      = Num (6717876107567089 * 2 ^ 459)"
    by (rule js_add_eval [where e = "511" and n = 6717876107567089 and q = "2 ^ 459"])
      (simp_all add: huge_def)
  have f192: "js_add (Num 0) (Num (5764607523034235 / 144115188075855872))
      = Num (5764607523034235 / 144115188075855872)"
    by (rule js_add_eval [where e = "- 5" and n = 5764607523034235 and q = "1 / 2 ^ 57"])
      (simp_all add: huge_def)
  have f193: "js_add (Num (5764607523034235 / 144115188075855872)) (Num (5764607523034235 / 288230376151711744))
      = Num (1080863910568919 / 18014398509481984)"
    proof -
    have "rnd ((5764607523034235 / 144115188075855872) + (5764607523034235 / 288230376151711744))
          = Num (1080863910568919 / 18014398509481984)"
      by (rule rnd_eval_tie [where e = "- 5" and n = 8646911284551352 and q = "1 / 2 ^ 57"
            and m = 8646911284551352])
        (simp_all add: huge_def)
    then show ?thesis
      by (simp add: js_add_def)
  qed
  have f194: "js_add (Num (1080863910568919 / 18014398509481984)) (Num (1080863910568919 / 72057594037927936))
      = Num (5404319552844595 / 72057594037927936)"
    by (rule js_add_eval [where e = "- 4" and n = 5404319552844595 and q = "1 / 2 ^ 56"])
      (simp_all add: huge_def)
  have f195: "js_div (Num (6717876107567089 * 2 ^ 459)) (Num 1)
      = Num (6717876107567089 * 2 ^ 459)"
    by (rule js_div_eval [where e = "511" and n = 6717876107567089 and q = "2 ^ 459"])
      (simp_all add: huge_def)
  have f196: "js_div (Num (5404319552844595 / 72057594037927936)) (Num 1)
      = Num (5404319552844595 / 72057594037927936)"
    by (rule js_div_eval [where e = "- 4" and n = 5404319552844595 and q = "1 / 2 ^ 56"])
      (simp_all add: huge_def)
  have f197: "lit (4 / 10) = Num (3602879701896397 / 9007199254740992)"
    by (rule lit_eval [where e = "- 2" and n = 7205759403792794 and q = "1 / 2 ^ 54"])
      (simp_all add: huge_def)
  have f198: "lit (25 / 10) = Num (5 / 2)"
    by (rule lit_eval [where e = "1" and n = 5629499534213120 and q = "1 / 2 ^ 51"])
      (simp_all add: huge_def)
  note facts = p1 p2 p3 p4 p5 p6 p7 p8 p9 p10 p11 p12 p13 p14 p15 p16 p17 p18 p19 p20 p21 p22 p23
    f1 f2 f3 f4 f5 f6 f7 f8 f9 f10 f11 f12
    f13 f14 f15 f16 f17 f18 f19 f20 f21 f22 f23 f24
    f25 f26 f27 f28 f29 f30 f31 f32 f33 f34 f35 f36
    f37 f38 f39 f40 f41 f42 f43 f44 f45 f46 f47 f48
    f49 f50 f51 f52 f53 f54 f55 f56 f57 f58 f59 f60
    f61 f62 f63 f64 f65 f66 f67 f68 f69 f70 f71 f72
    f73 f74 f75 f76 f77 f78 f79 f80 f81 f82 f83 f84
    f85 f86 f87 f88 f89 f90 f91 f92 f93 f94 f95 f96
    f97 f98 f99 f100 f101 f102 f103 f104 f105 f106 f107 f108
    f109 f110 f111 f112 f113 f114 f115 f116 f117 f118 f119 f120
    f121 f122 f123 f124 f125 f126 f127 f128 f129 f130 f131 f132
    f133 f134 f135 f136 f137 f138 f139 f140 f141 f142 f143 f144
    f145 f146 f147 f148 f149 f150 f151 f152 f153 f154 f155 f156
    f157 f158 f159 f160 f161 f162 f163 f164 f165 f166 f167 f168
    f169 f170 f171 f172 f173 f174 f175 f176 f177 f178 f179 f180
    f181 f182 f183 f184 f185 f186 f187 f188 f189 f190 f191 f192
    f193 f194 f195 f196 f197 f198
  show "js_gt (Xd_js initial_params_js) (Xd_prime_js initial_params_js) = True"
    and "js_gt (Xd_prime_js initial_params_js) (lit 0) = True"
    and "js_gt (XL_js initial_params_js) (lit 0) = True"
    and "js_gt (Td0_prime_js initial_params_js) (lit 0) = True"
    and "js_gt (Tq0_prime_js initial_params_js) (lit 0) = True"
    and "js_gt (Xd_js extreme_params_js) (Xd_prime_js extreme_params_js) = True"
    and "js_gt (Xd_prime_js extreme_params_js) (lit 0) = True"
    and "js_gt (XL_js extreme_params_js) (lit 0) = True"
    and "js_gt (Td0_prime_js extreme_params_js) (lit 0) = True"
    and "js_gt (Tq0_prime_js extreme_params_js) (lit 0) = True"
    and "stabilityCircle_js initial_params_js
        = \<lparr>G_center_js = Num 0, Bc_center_js = Num (3024059683195505 / 18014398509481984),
           R_js = Num (5998134908817531 / 288230376151711744)\<rparr>"
    and "checkStability_js (stabilityCircle_js initial_params_js) overflow_G_js initial_Bc_js
        = True"
    and "calculateEigenvalues_js initial_params_js overflow_G_js initial_Bc_js
        = \<lparr>real_js = NaN, imag_js = NaN, stable_js = False,
           oscillatory_js = Some True\<rparr>"
    and "js_ge (eig_denom_js initial_params_js overflow_G_js initial_Bc_js) epsilon_js
        = True"
    and "js_lt (eig_denom_js initial_params_js overflow_G_js initial_Bc_js) epsilon_js
        = False"
    and "js_ge (eig_disc_js initial_params_js overflow_G_js initial_Bc_js) (lit 0)
        = False"
    and "js_lt (eig_disc_js initial_params_js overflow_G_js initial_Bc_js) (lit 0)
        = False"
    and "js_mul (lit 2) (eig_a_js initial_params_js) = Num 10"
    and "calculateK_js initial_params_js overflow_G_js initial_Bc_js = Num 0"
    and "checkStability_js (stabilityCircle_js initial_params_js) boundary_G_js boundary_Bc_js
        = False"
    and "calculateEigenvalues_js initial_params_js boundary_G_js boundary_Bc_js
        = \<lparr>real_js = Num (- (3 / 9007199254740992)),
           imag_js = Num (4872305817216995 / 288230376151711744), stable_js = True,
           oscillatory_js = Some True\<rparr>"
    and "js_ge (eig_denom_js initial_params_js boundary_G_js boundary_Bc_js) epsilon_js
        = True"
    and "js_lt (eig_denom_js initial_params_js boundary_G_js boundary_Bc_js) epsilon_js
        = False"
    and "js_ge (eig_disc_js initial_params_js boundary_G_js boundary_Bc_js) (lit 0)
        = False"
    and "js_lt (eig_disc_js initial_params_js boundary_G_js boundary_Bc_js) (lit 0)
        = True"
    and "checkStability_js (stabilityCircle_js initial_params_js) scenario_B_G_js scenario_B_Bc_js
        = True"
    and "calculateEigenvalues_js initial_params_js scenario_B_G_js scenario_B_Bc_js
        = \<lparr>real_js = Num (- (4911007693726941 / 18014398509481984)), imag_js = Num 0,
           stable_js = True, oscillatory_js = Some False\<rparr>"
    and "js_ge (eig_denom_js initial_params_js scenario_B_G_js scenario_B_Bc_js) epsilon_js
        = True"
    and "js_lt (eig_denom_js initial_params_js scenario_B_G_js scenario_B_Bc_js) epsilon_js
        = False"
    and "js_ge (eig_disc_js initial_params_js scenario_B_G_js scenario_B_Bc_js) (lit 0)
        = True"
    and "js_lt (eig_disc_js initial_params_js scenario_B_G_js scenario_B_Bc_js) (lit 0)
        = False"
    and "checkStability_js (stabilityCircle_js initial_params_js) (lit 0) degenerate_Bc_js
        = True"
    and "calculateEigenvalues_js initial_params_js (lit 0) degenerate_Bc_js
        = \<lparr>real_js = Num 0, imag_js = Num 0, stable_js = False,
           oscillatory_js = None\<rparr>"
    and "js_ge (eig_denom_js initial_params_js (lit 0) degenerate_Bc_js) epsilon_js
        = False"
    and "js_lt (eig_denom_js initial_params_js (lit 0) degenerate_Bc_js) epsilon_js
        = True"
    and "calculateEigenvalues_js extreme_params_js boundary_G_js boundary_Bc_js
        = \<lparr>real_js = NegZero, imag_js = NaN, stable_js = False,
           oscillatory_js = Some True\<rparr>"
    and "js_ge (eig_denom_js extreme_params_js boundary_G_js boundary_Bc_js) epsilon_js
        = True"
    and "js_lt (eig_denom_js extreme_params_js boundary_G_js boundary_Bc_js) epsilon_js
        = False"
    and "js_ge (eig_disc_js extreme_params_js boundary_G_js boundary_Bc_js) (lit 0)
        = False"
    and "js_lt (eig_disc_js extreme_params_js boundary_G_js boundary_Bc_js) (lit 0)
        = True"
    and "js_mul (lit 2) (eig_a_js extreme_params_js) = PInf"
    and "js_ge (imag_js (calculateEigenvalues_js extreme_params_js boundary_G_js boundary_Bc_js)) (lit 0)
        = False"
    and "G_js (aggregate_js overflow_systemConfig_js initial_connected)
        = overflow_G_js"
    and "Bc_js (aggregate_js overflow_systemConfig_js initial_connected)
        = initial_Bc_js"
    and "lit (4 / 10) = Num (3602879701896397 / 9007199254740992)"
    and "lit (25 / 10) = Num (5 / 2)"
    unfolding aggregate_js_def stabilityCircle_js_def checkStability_js_def calculateEigenvalues_js_def
      calculateK_js_def eig_disc_js_def eig_c_js_def eig_b_js_def eig_a_js_def eig_Yi_js_def
      eig_Yr_js_def eig_denom_js_def eig_X_js_def eig_Q_js_def epsilon_js_def overflow_G_js_def
      initial_Bc_js_def boundary_G_js_def boundary_Bc_js_def scenario_B_G_js_def scenario_B_Bc_js_def
      degenerate_Bc_js_def
    by (simp_all only: Let_def facts if_True if_False simp_thms circle_js.simps
        eigen_js.simps operating_js.simps)
qed

subsection \<open>The loop of the time response\<close>

text \<open>
  A turn of the loop moves the time forward by at least \<open>0.01\<close> and at most \<open>0.03\<close>, so the
  loop returns, and its first 260 turns all happen.
\<close>

lemma time_step_progress:
  assumes "0 \<le> x" and "x \<le> 8"
  shows "\<exists>x'. js_add (Num x) dt_js = Num x' \<and> x + 1 / 100 \<le> x' \<and> x' \<le> x + 3 / 100"
proof -
  define y where "y = x + 5764607523034235 / 288230376151711744"
  have y: "0 < y" "y < 2 powi 4" "1 / 2 ^ 49 < y" "y + 1 / 2 ^ 49 < huge"
    using assms by (simp_all add: y_def huge_def)
  have "\<exists>v. rnd y = Num v \<and> y - 1 / 2 ^ 49 \<le> v \<and> v \<le> y + 1 / 2 ^ 49"
    using y by (intro rnd_near [where k = 4]) simp_all
  then obtain v where v: "rnd y = Num v" "y - 1 / 2 ^ 49 \<le> v" "v \<le> y + 1 / 2 ^ 49"
    by blast
  have "js_add (Num x) dt_js = Num v"
    using y(1) v(1) by (simp add: dt_js_value js_add_def y_def)
  moreover have "x + 1 / 100 \<le> v" "v \<le> x + 3 / 100"
    using v(2) v(3) by (simp_all add: y_def)
  ultimately show ?thesis
    by blast
qed

lemma simulation_loop_js_terminates:
  assumes "0 \<le> x" and "nat \<lfloor>(9 - x) * 100\<rfloor> < n"
  shows "\<exists>rest. simulation_loop_js M p g bc (Num x) data = Some (data @ rest)
    \<and> (\<forall>s \<in> set rest. \<exists>t. s = simulation_step_js M p g bc t)"
  using assms
proof (induction n arbitrary: x data)
  case 0
  then show ?case by simp
next
  case (Suc n)
  show ?case
  proof (cases "x \<le> 8")
    case False
    then have "simulation_loop_js M p g bc (Num x) data = Some (data @ [])"
      by (subst simulation_loop_js.simps) (simp add: tMax_js_def lit_8 js_le_def js_lt_def)
    moreover have "\<forall>s \<in> set []. \<exists>t. s = simulation_step_js M p g bc t"
      by simp
    ultimately show ?thesis
      by blast
  next
    case True
    obtain x' where x': "js_add (Num x) dt_js = Num x'" "x + 1 / 100 \<le> x'"
      using time_step_progress [OF Suc.prems(1) True] by blast
    let ?s = "simulation_step_js M p g bc (Num x)"
    have unfold: "simulation_loop_js M p g bc (Num x) data
        = simulation_loop_js M p g bc (Num x') (data @ [?s])"
      using True
      by (subst simulation_loop_js.simps) (simp add: tMax_js_def lit_8 js_le_def js_lt_def x'(1))
    have "(9 - x') * 100 \<le> (9 - x) * 100 - 1"
      using x'(2) by simp
    then have "\<lfloor>(9 - x') * 100\<rfloor> \<le> \<lfloor>(9 - x) * 100\<rfloor> - 1"
      by (metis floor_diff_one floor_mono)
    moreover have "0 < \<lfloor>(9 - x) * 100\<rfloor>"
      using True by simp
    ultimately have "nat \<lfloor>(9 - x') * 100\<rfloor> < nat \<lfloor>(9 - x) * 100\<rfloor>"
      by linarith
    then have less: "nat \<lfloor>(9 - x') * 100\<rfloor> < n"
      using Suc.prems(2) by linarith
    have "0 \<le> x'"
      using Suc.prems(1) x'(2) by linarith
    from Suc.IH [OF this less, of "data @ [?s]"]
    obtain rest where rest: "simulation_loop_js M p g bc (Num x') (data @ [?s])
        = Some ((data @ [?s]) @ rest)"
      "\<forall>s \<in> set rest. \<exists>t. s = simulation_step_js M p g bc t"
      by blast
    have "simulation_loop_js M p g bc (Num x) data = Some (data @ (?s # rest))"
      using rest(1) by (simp add: unfold)
    moreover have "\<forall>s \<in> set (?s # rest). \<exists>t. s = simulation_step_js M p g bc t"
      using rest(2) by auto
    ultimately show ?thesis
      by blast
  qed
qed

lemma simulation_time_bounds:
  "n \<le> 260 \<Longrightarrow> \<exists>x. simulation_time n = Num x \<and> 0 \<le> x \<and> x \<le> 3 * real n / 100"
proof (induction n)
  case 0
  then show ?case
    by (simp add: lit_0)
next
  case (Suc n)
  then obtain x where x: "simulation_time n = Num x" "0 \<le> x" "x \<le> 3 * real n / 100"
    by auto
  have "x \<le> 8"
    using x(3) Suc.prems by simp
  from time_step_progress [OF x(2) this]
  obtain x' where x': "js_add (Num x) dt_js = Num x'" "x + 1 / 100 \<le> x'" "x' \<le> x + 3 / 100"
    by blast
  have "simulation_time (Suc n) = Num x'"
    by (simp add: x(1) x'(1))
  moreover have "0 \<le> x'" "x' \<le> 3 * real (Suc n) / 100"
    using x(2) x(3) x'(2) x'(3) by (simp_all add: field_simps)
  ultimately show ?case
    by blast
qed

lemma simulation_time_le_tMax:
  assumes "n \<le> 260"
  shows "js_le (simulation_time n) tMax_js"
proof -
  obtain x where x: "simulation_time n = Num x" "x \<le> 3 * real n / 100"
    using simulation_time_bounds [OF assms] by blast
  have "x \<le> 8"
    using x(2) assms by simp
  then show ?thesis
    by (simp add: x(1) tMax_js_def lit_8 js_le_def js_lt_def)
qed

lemma simulation_loop_js_prefix:
  "n \<le> 260 \<Longrightarrow> simulation_loop_js M p g bc (lit 0) []
     = simulation_loop_js M p g bc (simulation_time n)
         (map (\<lambda>i. simulation_step_js M p g bc (simulation_time i)) [0..<n])"
proof (induction n)
  case 0
  then show ?case by simp
next
  case (Suc n)
  have le: "js_le (simulation_time n) tMax_js"
    using Suc.prems by (intro simulation_time_le_tMax) simp
  have "simulation_loop_js M p g bc (lit 0) []
      = simulation_loop_js M p g bc (simulation_time n)
          (map (\<lambda>i. simulation_step_js M p g bc (simulation_time i)) [0..<n])"
    using Suc.prems by (intro Suc.IH) simp
  also have "\<dots> = simulation_loop_js M p g bc (simulation_time (Suc n))
          (map (\<lambda>i. simulation_step_js M p g bc (simulation_time i)) [0..<Suc n])"
    using le by (subst simulation_loop_js.simps) simp
  finally show ?case .
qed

lemma simulation_time_step:
  assumes "m = Suc n" and "simulation_time n = a"
    and "js_add a (Num (5764607523034235 / 288230376151711744)) = b"
  shows "simulation_time m = b"
  using assms by (simp add: dt_js_value)

text \<open>
  The time of the 26th turn, sum by sum. It is the double above \<open>0.5\<close>, so this turn is the
  first one after the disturbance.
\<close>

lemma simulation_time_25:
  shows "simulation_time 25 = Num (4503599627370497 / 9007199254740992)"
    and "js_gt (simulation_time 25) (lit (5 / 10)) = True"
proof -
  have t1: "lit 0 = Num 0"
    by (simp add: lit_def rnd_def)
  have t2: "lit (2 / 100) = Num (5764607523034235 / 288230376151711744)"
    by (rule lit_eval [where e = "- 6" and n = 5764607523034235 and q = "1 / 2 ^ 58"])
      (simp_all add: huge_def)
  have t3: "js_add (Num 0) (Num (5764607523034235 / 288230376151711744))
      = Num (5764607523034235 / 288230376151711744)"
    by (rule js_add_eval [where e = "- 6" and n = 5764607523034235 and q = "1 / 2 ^ 58"])
      (simp_all add: huge_def)
  have t4: "js_add (Num (5764607523034235 / 288230376151711744)) (Num (5764607523034235 / 288230376151711744))
      = Num (5764607523034235 / 144115188075855872)"
    by (rule js_add_eval [where e = "- 5" and n = 5764607523034235 and q = "1 / 2 ^ 57"])
      (simp_all add: huge_def)
  have t5: "js_add (Num (5764607523034235 / 144115188075855872)) (Num (5764607523034235 / 288230376151711744))
      = Num (1080863910568919 / 18014398509481984)"
    proof -
    have "rnd ((5764607523034235 / 144115188075855872) + (5764607523034235 / 288230376151711744))
          = Num (1080863910568919 / 18014398509481984)"
      by (rule rnd_eval_tie [where e = "- 5" and n = 8646911284551352 and q = "1 / 2 ^ 57"
            and m = 8646911284551352])
        (simp_all add: huge_def)
    then show ?thesis
      by (simp add: js_add_def)
  qed
  have t6: "js_add (Num (1080863910568919 / 18014398509481984)) (Num (5764607523034235 / 288230376151711744))
      = Num (5764607523034235 / 72057594037927936)"
    by (rule js_add_eval [where e = "- 4" and n = 5764607523034235 and q = "1 / 2 ^ 56"])
      (simp_all add: huge_def)
  have t7: "js_add (Num (5764607523034235 / 72057594037927936)) (Num (5764607523034235 / 288230376151711744))
      = Num (3602879701896397 / 36028797018963968)"
    by (rule js_add_eval [where e = "- 4" and n = 7205759403792794 and q = "1 / 2 ^ 56"])
      (simp_all add: huge_def)
  have t8: "js_add (Num (3602879701896397 / 36028797018963968)) (Num (5764607523034235 / 288230376151711744))
      = Num (8646911284551353 / 72057594037927936)"
    by (rule js_add_eval [where e = "- 4" and n = 8646911284551353 and q = "1 / 2 ^ 56"])
      (simp_all add: huge_def)
  have t9: "js_add (Num (8646911284551353 / 72057594037927936)) (Num (5764607523034235 / 288230376151711744))
      = Num (1261007895663739 / 9007199254740992)"
    by (rule js_add_eval [where e = "- 3" and n = 5044031582654956 and q = "1 / 2 ^ 55"])
      (simp_all add: huge_def)
  have t10: "js_add (Num (1261007895663739 / 9007199254740992)) (Num (5764607523034235 / 288230376151711744))
      = Num (5764607523034235 / 36028797018963968)"
    by (rule js_add_eval [where e = "- 3" and n = 5764607523034235 and q = "1 / 2 ^ 55"])
      (simp_all add: huge_def)
  have t11: "js_add (Num (5764607523034235 / 36028797018963968)) (Num (5764607523034235 / 288230376151711744))
      = Num (3242591731706757 / 18014398509481984)"
    by (rule js_add_eval [where e = "- 3" and n = 6485183463413514 and q = "1 / 2 ^ 55"])
      (simp_all add: huge_def)
  have t12: "js_add (Num (3242591731706757 / 18014398509481984)) (Num (5764607523034235 / 288230376151711744))
      = Num (7205759403792793 / 36028797018963968)"
    by (rule js_add_eval [where e = "- 3" and n = 7205759403792793 and q = "1 / 2 ^ 55"])
      (simp_all add: huge_def)
  have t13: "js_add (Num (7205759403792793 / 36028797018963968)) (Num (5764607523034235 / 288230376151711744))
      = Num (990791918021509 / 4503599627370496)"
    by (rule js_add_eval [where e = "- 3" and n = 7926335344172072 and q = "1 / 2 ^ 55"])
      (simp_all add: huge_def)
  have t14: "js_add (Num (990791918021509 / 4503599627370496)) (Num (5764607523034235 / 288230376151711744))
      = Num (8646911284551351 / 36028797018963968)"
    by (rule js_add_eval [where e = "- 3" and n = 8646911284551351 and q = "1 / 2 ^ 55"])
      (simp_all add: huge_def)
  have t15: "js_add (Num (8646911284551351 / 36028797018963968)) (Num (5764607523034235 / 288230376151711744))
      = Num (4683743612465315 / 18014398509481984)"
    by (rule js_add_eval [where e = "- 2" and n = 4683743612465315 and q = "1 / 2 ^ 54"])
      (simp_all add: huge_def)
  have t16: "js_add (Num (4683743612465315 / 18014398509481984)) (Num (5764607523034235 / 288230376151711744))
      = Num (5044031582654955 / 18014398509481984)"
    by (rule js_add_eval [where e = "- 2" and n = 5044031582654955 and q = "1 / 2 ^ 54"])
      (simp_all add: huge_def)
  have t17: "js_add (Num (5044031582654955 / 18014398509481984)) (Num (5764607523034235 / 288230376151711744))
      = Num (5404319552844595 / 18014398509481984)"
    by (rule js_add_eval [where e = "- 2" and n = 5404319552844595 and q = "1 / 2 ^ 54"])
      (simp_all add: huge_def)
  have t18: "js_add (Num (5404319552844595 / 18014398509481984)) (Num (5764607523034235 / 288230376151711744))
      = Num (5764607523034235 / 18014398509481984)"
    by (rule js_add_eval [where e = "- 2" and n = 5764607523034235 and q = "1 / 2 ^ 54"])
      (simp_all add: huge_def)
  have t19: "js_add (Num (5764607523034235 / 18014398509481984)) (Num (5764607523034235 / 288230376151711744))
      = Num (6124895493223875 / 18014398509481984)"
    by (rule js_add_eval [where e = "- 2" and n = 6124895493223875 and q = "1 / 2 ^ 54"])
      (simp_all add: huge_def)
  have t20: "js_add (Num (6124895493223875 / 18014398509481984)) (Num (5764607523034235 / 288230376151711744))
      = Num (6485183463413515 / 18014398509481984)"
    by (rule js_add_eval [where e = "- 2" and n = 6485183463413515 and q = "1 / 2 ^ 54"])
      (simp_all add: huge_def)
  have t21: "js_add (Num (6485183463413515 / 18014398509481984)) (Num (5764607523034235 / 288230376151711744))
      = Num (6845471433603155 / 18014398509481984)"
    by (rule js_add_eval [where e = "- 2" and n = 6845471433603155 and q = "1 / 2 ^ 54"])
      (simp_all add: huge_def)
  have t22: "js_add (Num (6845471433603155 / 18014398509481984)) (Num (5764607523034235 / 288230376151711744))
      = Num (7205759403792795 / 18014398509481984)"
    by (rule js_add_eval [where e = "- 2" and n = 7205759403792795 and q = "1 / 2 ^ 54"])
      (simp_all add: huge_def)
  have t23: "js_add (Num (7205759403792795 / 18014398509481984)) (Num (5764607523034235 / 288230376151711744))
      = Num (7566047373982435 / 18014398509481984)"
    by (rule js_add_eval [where e = "- 2" and n = 7566047373982435 and q = "1 / 2 ^ 54"])
      (simp_all add: huge_def)
  have t24: "js_add (Num (7566047373982435 / 18014398509481984)) (Num (5764607523034235 / 288230376151711744))
      = Num (7926335344172075 / 18014398509481984)"
    by (rule js_add_eval [where e = "- 2" and n = 7926335344172075 and q = "1 / 2 ^ 54"])
      (simp_all add: huge_def)
  have t25: "js_add (Num (7926335344172075 / 18014398509481984)) (Num (5764607523034235 / 288230376151711744))
      = Num (8286623314361715 / 18014398509481984)"
    by (rule js_add_eval [where e = "- 2" and n = 8286623314361715 and q = "1 / 2 ^ 54"])
      (simp_all add: huge_def)
  have t26: "js_add (Num (8286623314361715 / 18014398509481984)) (Num (5764607523034235 / 288230376151711744))
      = Num (8646911284551355 / 18014398509481984)"
    by (rule js_add_eval [where e = "- 2" and n = 8646911284551355 and q = "1 / 2 ^ 54"])
      (simp_all add: huge_def)
  have t27: "js_add (Num (8646911284551355 / 18014398509481984)) (Num (5764607523034235 / 288230376151711744))
      = Num (4503599627370497 / 9007199254740992)"
    by (rule js_add_eval [where e = "- 1" and n = 4503599627370497 and q = "1 / 2 ^ 53"])
      (simp_all add: huge_def)
  have t28: "lit (5 / 10) = Num (1 / 2)"
    by (rule lit_eval [where e = "- 1" and n = 4503599627370496 and q = "1 / 2 ^ 53"])
      (simp_all add: huge_def)
  have t29: "js_gt (Num (4503599627370497 / 9007199254740992)) (Num (1 / 2)) = True"
    by (simp add: js_ops)
  have s0: "simulation_time 0 = Num 0"
    by (simp only: simulation_time.simps(1) t1)
  have s1: "simulation_time 1 = Num (5764607523034235 / 288230376151711744)"
    by (rule simulation_time_step [OF _ s0 t3]) simp
  have s2: "simulation_time 2 = Num (5764607523034235 / 144115188075855872)"
    by (rule simulation_time_step [OF _ s1 t4]) simp
  have s3: "simulation_time 3 = Num (1080863910568919 / 18014398509481984)"
    by (rule simulation_time_step [OF _ s2 t5]) simp
  have s4: "simulation_time 4 = Num (5764607523034235 / 72057594037927936)"
    by (rule simulation_time_step [OF _ s3 t6]) simp
  have s5: "simulation_time 5 = Num (3602879701896397 / 36028797018963968)"
    by (rule simulation_time_step [OF _ s4 t7]) simp
  have s6: "simulation_time 6 = Num (8646911284551353 / 72057594037927936)"
    by (rule simulation_time_step [OF _ s5 t8]) simp
  have s7: "simulation_time 7 = Num (1261007895663739 / 9007199254740992)"
    by (rule simulation_time_step [OF _ s6 t9]) simp
  have s8: "simulation_time 8 = Num (5764607523034235 / 36028797018963968)"
    by (rule simulation_time_step [OF _ s7 t10]) simp
  have s9: "simulation_time 9 = Num (3242591731706757 / 18014398509481984)"
    by (rule simulation_time_step [OF _ s8 t11]) simp
  have s10: "simulation_time 10 = Num (7205759403792793 / 36028797018963968)"
    by (rule simulation_time_step [OF _ s9 t12]) simp
  have s11: "simulation_time 11 = Num (990791918021509 / 4503599627370496)"
    by (rule simulation_time_step [OF _ s10 t13]) simp
  have s12: "simulation_time 12 = Num (8646911284551351 / 36028797018963968)"
    by (rule simulation_time_step [OF _ s11 t14]) simp
  have s13: "simulation_time 13 = Num (4683743612465315 / 18014398509481984)"
    by (rule simulation_time_step [OF _ s12 t15]) simp
  have s14: "simulation_time 14 = Num (5044031582654955 / 18014398509481984)"
    by (rule simulation_time_step [OF _ s13 t16]) simp
  have s15: "simulation_time 15 = Num (5404319552844595 / 18014398509481984)"
    by (rule simulation_time_step [OF _ s14 t17]) simp
  have s16: "simulation_time 16 = Num (5764607523034235 / 18014398509481984)"
    by (rule simulation_time_step [OF _ s15 t18]) simp
  have s17: "simulation_time 17 = Num (6124895493223875 / 18014398509481984)"
    by (rule simulation_time_step [OF _ s16 t19]) simp
  have s18: "simulation_time 18 = Num (6485183463413515 / 18014398509481984)"
    by (rule simulation_time_step [OF _ s17 t20]) simp
  have s19: "simulation_time 19 = Num (6845471433603155 / 18014398509481984)"
    by (rule simulation_time_step [OF _ s18 t21]) simp
  have s20: "simulation_time 20 = Num (7205759403792795 / 18014398509481984)"
    by (rule simulation_time_step [OF _ s19 t22]) simp
  have s21: "simulation_time 21 = Num (7566047373982435 / 18014398509481984)"
    by (rule simulation_time_step [OF _ s20 t23]) simp
  have s22: "simulation_time 22 = Num (7926335344172075 / 18014398509481984)"
    by (rule simulation_time_step [OF _ s21 t24]) simp
  have s23: "simulation_time 23 = Num (8286623314361715 / 18014398509481984)"
    by (rule simulation_time_step [OF _ s22 t25]) simp
  have s24: "simulation_time 24 = Num (8646911284551355 / 18014398509481984)"
    by (rule simulation_time_step [OF _ s23 t26]) simp
  have s25: "simulation_time 25 = Num (4503599627370497 / 9007199254740992)"
    by (rule simulation_time_step [OF _ s24 t27]) simp
  show "simulation_time 25 = Num (4503599627370497 / 9007199254740992)"
    and "js_gt (simulation_time 25) (lit (5 / 10)) = True"
    by (simp_all only: s25 t28 t29)
qed

lemma simulation_step_js_overflow:
  assumes "js_gt t (lit (5 / 10))"
  shows "VL_js (simulation_step_js M initial_params_js overflow_G_js initial_Bc_js t) = NaN"
  using assms
  by (simp add: simulation_step_js_def Let_def overflow_eigen overflow_K overflow_classifier
      NaN_absorbs)

text \<open>
  The clamp \<^verbatim>\<open>Math.min(Math.max(VL, 0.4), 2.5)\<close> keeps every number in range and lets NaN
  through. So the time response returns for every input, and the voltage of each of its
  samples is in \<open>[0.4, 2.5]\<close> or NaN.
\<close>

lemma clamp_js:
  "Math_min (Math_max v (lit (4 / 10))) (lit (25 / 10)) = NaN
    \<or> (js_ge (Math_min (Math_max v (lit (4 / 10))) (lit (25 / 10))) (lit (4 / 10))
       \<and> js_le (Math_min (Math_max v (lit (4 / 10))) (lit (25 / 10))) (lit (25 / 10)))"
  unfolding clamp_bounds
  by (cases v) (simp_all add: Math_max_def Math_min_def js_lt_def js_le_def js_ge_def)

lemma simulation_step_js_VL:
  "VL_js (simulation_step_js M p g bc t) = NaN
    \<or> (js_ge (VL_js (simulation_step_js M p g bc t)) (lit (4 / 10))
       \<and> js_le (VL_js (simulation_step_js M p g bc t)) (lit (25 / 10)))"
proof -
  have "\<exists>v. VL_js (simulation_step_js M p g bc t)
      = Math_min (Math_max v (lit (4 / 10))) (lit (25 / 10))"
    unfolding simulation_step_js_def Let_def sample_js.select_convs
    by (rule exI) (rule refl)
  then obtain v where "VL_js (simulation_step_js M p g bc t)
      = Math_min (Math_max v (lit (4 / 10))) (lit (25 / 10))"
    by blast
  then show ?thesis
    using clamp_js [of v] by (simp only:)
qed

lemma runSimulation_js_clamped:
  "\<exists>data. runSimulation_js M p g bc = Some data
    \<and> (\<forall>s \<in> set data. VL_js s = NaN
          \<or> (js_ge (VL_js s) (lit (4 / 10)) \<and> js_le (VL_js s) (lit (25 / 10))))"
proof -
  have "nat \<lfloor>(9 - 0 :: real) * 100\<rfloor> < 901"
    by simp
  from simulation_loop_js_terminates [OF _ this, of M p g bc "[]"]
  obtain data where data: "simulation_loop_js M p g bc (Num 0) [] = Some data"
    "\<forall>s \<in> set data. \<exists>t. s = simulation_step_js M p g bc t"
    by auto
  have "\<forall>s \<in> set data. VL_js s = NaN
      \<or> (js_ge (VL_js s) (lit (4 / 10)) \<and> js_le (VL_js s) (lit (25 / 10)))"
  proof
    fix s
    assume "s \<in> set data"
    then obtain t where "s = simulation_step_js M p g bc t"
      using data(2) by blast
    then show "VL_js s = NaN
        \<or> (js_ge (VL_js s) (lit (4 / 10)) \<and> js_le (VL_js s) (lit (25 / 10)))"
      using simulation_step_js_VL [of M p g bc t] by (simp only:)
  qed
  then show ?thesis
    using data(1) by (simp add: runSimulation_js_def lit_0)
qed

subsection \<open>C1: the classifier and the eigenvalue solver\<close>




subsection \<open>C2: the contract of the eigenvalue solver\<close>




subsection \<open>C3: the boundary circle\<close>

text \<open>
  C3. For every parameter set with \<open>Xd > Xd_prime > 0\<close> and \<open>XL > 0\<close>, the stability
  boundary (in both variants of the component) is the circle with centre
  \<open>(0, 0.5 * (1 / (XL + Xd_prime) + 1 / (XL + Xd)))\<close> and radius
  \<open>(Xd - Xd_prime) / (2 * (XL + Xd_prime) * (XL + Xd))\<close>.
\<close>

theorem stabilityCircle_formula:
  assumes "Xd p > Xd_prime p" and "Xd_prime p > 0" and "XL p > 0"
  shows "G_center (stabilityCircle p) = 0
    \<and> Bc_center (stabilityCircle p) = 0.5 * (1 / (XL p + Xd_prime p) + 1 / (XL p + Xd p))
    \<and> R (stabilityCircle p) = (Xd p - Xd_prime p) / (2 * (XL p + Xd_prime p) * (XL p + Xd p))
    \<and> stabilityCircle_direct p = stabilityCircle p"
  by (simp add: stabilityCircle_def stabilityCircle_direct_def Let_def)

theorem stabilityCircle_formula_witness:
  "Xd initial_params > Xd_prime initial_params \<and> Xd_prime initial_params > 0
    \<and> XL initial_params > 0
    \<and> G_center (stabilityCircle initial_params) = 0
    \<and> Bc_center (stabilityCircle initial_params) = 605 / 3604
    \<and> R (stabilityCircle initial_params) = 75 / 3604
    \<and> stabilityCircle_direct initial_params = stabilityCircle initial_params"
  using stabilityCircle_formula [of initial_params]
  by (simp add: initial_params_def)

subsection \<open>C4: a contour point has the contour's voltage ratio\<close>

text \<open>
  C4. For \<open>XL > 0\<close>, \<open>Xd_prime > 0\<close> and \<open>k > 0\<close>, every point
  \<open>(R * cos th, Bc_center + R * sin th)\<close> of the circle \<open>calculateKCircle p k\<close> whose
  denominator in \<open>calculateK\<close> is at least \<open>1e-10\<close> has voltage ratio \<open>k\<close>, in both
  variants. Over the reals the equality is exact.
\<close>

theorem contour_round_trip:
  assumes "0 < XL p" and "0 < Xd_prime p" and "0 < k"
    and g: "g = contour_g (calculateKCircle p k) th"
    and bc: "bc = contour_bc (calculateKCircle p k) th"
    and nd: "sqrt ((1 - bc * (XL p + Xd_prime p))\<^sup>2 + (g * (XL p + Xd_prime p))\<^sup>2)
               \<ge> 1 / 10 ^ 10"
  shows "calculateK p g bc = k \<and> calculateK_direct p g bc = k"
proof -
  have X: "0 < XL p + Xd_prime p"
    using assms(1) assms(2) by simp
  have g': "g = 0 + 1 / (k * (XL p + Xd_prime p)) * cos th"
    by (simp add: g contour_g_def calculateKCircle_def Let_def)
  have bc': "bc = 1 / (XL p + Xd_prime p) + 1 / (k * (XL p + Xd_prime p)) * sin th"
    by (simp add: bc contour_bc_def calculateKCircle_def Let_def)
  have denom: "sqrt ((1 - bc * (XL p + Xd_prime p))\<^sup>2 + (g * (XL p + Xd_prime p))\<^sup>2) = 1 / k"
    unfolding g' bc' using X assms(3) by (rule contour_denominator)
  have "\<not> 1 / k < 1 / 10 ^ 10"
    using nd by (simp only: denom not_less)
  then have "calculateK p g bc = 1 / (1 / k)"
    by (simp only: calculateK_def Let_def denom if_False)
  then have "calculateK p g bc = k"
    by simp
  then show ?thesis
    by (simp only: calculateK_direct_eq)
qed

theorem contour_round_trip_witness:
  "0 < XL initial_params \<and> 0 < Xd_prime initial_params \<and> (0::real) < 1.2
    \<and> contour_g (calculateKCircle initial_params 1.2) 0 = 25 / 159
    \<and> contour_bc (calculateKCircle initial_params 1.2) 0 = 10 / 53
    \<and> sqrt ((1 - 10 / 53 * (XL initial_params + Xd_prime initial_params))\<^sup>2
             + (25 / 159 * (XL initial_params + Xd_prime initial_params))\<^sup>2) \<ge> 1 / 10 ^ 10
    \<and> calculateK initial_params (25 / 159) (10 / 53) = 1.2"
proof -
  have p: "0 < XL initial_params" "0 < Xd_prime initial_params" "(0::real) < 1.2"
    by (simp_all add: initial_params_def)
  have g: "25 / 159 = contour_g (calculateKCircle initial_params 1.2) 0"
    by (simp add: contour_g_def calculateKCircle_def initial_params_def Let_def)
  have bc: "10 / 53 = contour_bc (calculateKCircle initial_params 1.2) 0"
    by (simp add: contour_bc_def calculateKCircle_def initial_params_def Let_def)
  have "(1 - 10 / 53 * (XL initial_params + Xd_prime initial_params))\<^sup>2
             + (25 / 159 * (XL initial_params + Xd_prime initial_params))\<^sup>2 = ((5 / 6)\<^sup>2 :: real)"
    by (simp add: initial_params_def power2_eq_square)
  then have "sqrt ((1 - 10 / 53 * (XL initial_params + Xd_prime initial_params))\<^sup>2
             + (25 / 159 * (XL initial_params + Xd_prime initial_params))\<^sup>2) = 5 / 6"
    by (simp only: real_sqrt_abs)
  then have nd: "sqrt ((1 - 10 / 53 * (XL initial_params + Xd_prime initial_params))\<^sup>2
             + (25 / 159 * (XL initial_params + Xd_prime initial_params))\<^sup>2) \<ge> 1 / 10 ^ 10"
    by simp
  show ?thesis
    using p g [symmetric] bc [symmetric] nd contour_round_trip [OF p g bc nd]
    by simp
qed

subsection \<open>C5: the voltage ratio and its sentinel\<close>

text \<open>
  C5. With \<open>X = XL + Xd_prime\<close> and \<open>denom = sqrt ((1 - Bc * X)\<^sup>2 + (G * X)\<^sup>2)\<close>, the
  voltage ratio is the sentinel 999 when \<open>denom < 1e-10\<close> and \<open>1 / denom\<close> otherwise, in
  both variants; it is a total function, with no failing branch. At the degenerate point
  \<open>G = 0\<close>, \<open>Bc = 1 / X\<close> it is 999, in particular for the initial parameters, where
  \<open>X = 5.3\<close>.
\<close>

theorem calculateK_sentinel:
  "calculateK p g bc =
     (if sqrt ((1 - bc * (XL p + Xd_prime p))\<^sup>2 + (g * (XL p + Xd_prime p))\<^sup>2) < 1 / 10 ^ 10
      then 999
      else 1 / sqrt ((1 - bc * (XL p + Xd_prime p))\<^sup>2 + (g * (XL p + Xd_prime p))\<^sup>2))
    \<and> calculateK_direct p g bc = calculateK p g bc
    \<and> (XL p + Xd_prime p \<noteq> 0 \<longrightarrow> calculateK p 0 (1 / (XL p + Xd_prime p)) = 999)
    \<and> XL initial_params + Xd_prime initial_params = 5.3
    \<and> calculateK initial_params 0 (1 / 5.3) = 999"
  by (simp add: calculateK_def calculateK_direct_def Let_def initial_params_def)

theorem calculateK_sentinel_witness:
  "XL initial_params + Xd_prime initial_params \<noteq> 0
    \<and> calculateK initial_params 0 (1 / (XL initial_params + Xd_prime initial_params)) = 999
    \<and> calculateK initial_params 0 0 = 1"
  using calculateK_sentinel [of initial_params 0 0]
  by (simp add: initial_params_def)

subsection \<open>C6: the voltage of the samples\<close>

text \<open>
  C6 states that every sample of the time response has its voltage in \<open>[0.4, 2.5]\<close>, for
  every operating point. The program does not keep this. With \<^verbatim>\<open>1e154\<close> in the field of
  the first load and everything else in its initial state, the aggregation gives the
  operating point \<open>(1e154, 0.075)\<close>. There \<^verbatim>\<open>runSimulation\<close> returns, and its 26th sample, the
  first one after the disturbance, at \<open>t = 0.5000000000000001\<close>, has the voltage NaN, which
  is neither \<open>\<ge> 0.4\<close> nor \<open>\<le> 2.5\<close>: the eigenvalues are NaN, so \<open>VL\<close> is NaN, and
  \<^verbatim>\<open>Math.min(Math.max(VL, 0.4), 2.5)\<close> lets NaN through.
\<close>

theorem runSimulation_js_overflow_NaN:
  "\<exists>data. runSimulation_js M initial_params_js
        (G_js (aggregate_js overflow_systemConfig_js initial_connected))
        (Bc_js (aggregate_js overflow_systemConfig_js initial_connected)) = Some data
     \<and> 25 < length data
     \<and> t_js (data ! 25) = Num (4503599627370497 / 9007199254740992)
     \<and> VL_js (data ! 25) = NaN
     \<and> \<not> js_ge (VL_js (data ! 25)) (lit (4 / 10))
     \<and> \<not> js_le (VL_js (data ! 25)) (lit (25 / 10))"
proof -
  let ?step = "\<lambda>i. simulation_step_js M initial_params_js overflow_G_js initial_Bc_js
      (simulation_time i)"
  let ?first = "map ?step [0..<26]"
  obtain x where x: "simulation_time 26 = Num x" "0 \<le> x" "x \<le> 3 * real 26 / 100"
    using simulation_time_bounds [of 26] by auto
  have "(9 - x) * 100 \<le> 900"
    using x(2) by simp
  then have "\<lfloor>(9 - x) * 100\<rfloor> \<le> 900"
    by linarith
  then have "nat \<lfloor>(9 - x) * 100\<rfloor> < 901"
    by linarith
  from simulation_loop_js_terminates [OF x(2) this]
  obtain rest where rest: "simulation_loop_js M initial_params_js overflow_G_js
      initial_Bc_js (Num x) ?first = Some (?first @ rest)"
    by blast
  have run: "runSimulation_js M initial_params_js
      (G_js (aggregate_js overflow_systemConfig_js initial_connected))
      (Bc_js (aggregate_js overflow_systemConfig_js initial_connected))
      = Some (?first @ rest)"
    unfolding runSimulation_js_def overflow_operating_point
    using simulation_loop_js_prefix [of 26] rest by (simp add: x(1))
  have nth: "(?first @ rest) ! 25 = ?step 25"
    by (simp add: nth_append)
  have t: "t_js (?step 25) = Num (4503599627370497 / 9007199254740992)"
    by (simp add: simulation_step_js_def Let_def simulation_time_25(1))
  have VL: "VL_js (?step 25) = NaN"
    by (rule simulation_step_js_overflow) (simp only: simulation_time_25(2))
  show ?thesis
  proof (intro exI conjI)
    show "runSimulation_js M initial_params_js
        (G_js (aggregate_js overflow_systemConfig_js initial_connected))
        (Bc_js (aggregate_js overflow_systemConfig_js initial_connected))
        = Some (?first @ rest)"
      by (rule run)
    show "25 < length (?first @ rest)"
      by simp
    show "t_js ((?first @ rest) ! 25) = Num (4503599627370497 / 9007199254740992)"
      by (simp only: nth t)
    show "VL_js ((?first @ rest) ! 25) = NaN"
      by (simp only: nth VL)
    show "\<not> js_ge (VL_js ((?first @ rest) ! 25)) (lit (4 / 10))"
      by (simp only: nth VL js_ge_def js_le_def simp_thms)
    show "\<not> js_le (VL_js ((?first @ rest) ! 25)) (lit (25 / 10))"
      by (simp only: nth VL js_le_def simp_thms)
  qed
qed

subsection \<open>C7: the boundary circle of the initial parameters\<close>

text \<open>
  C7 as stated gives \<open>centerBc \<approx> 0.17406\<close> and \<open>radius \<approx> 0.014174\<close> for the parameters
  \<open>Xd = 1.8\<close>, \<open>Xd_prime = 0.3\<close>, \<open>XL = 5.0\<close>. The code's circle is further than 0.006
  from both numbers.
\<close>

theorem scenario_A_stated_values_counterexample:
  "\<not> (\<bar>Bc_center (stabilityCircle initial_params) - 0.17406\<bar> \<le> 0.006)
    \<and> \<not> (\<bar>R (stabilityCircle initial_params) - 0.014174\<bar> \<le> 0.006)"
  by (simp add: stabilityCircle_initial)

text \<open>
  C7, amended. For these parameters the boundary circle has
  \<open>centerBc = 605 / 3604 \<approx> 0.16787\<close> and \<open>radius = 75 / 3604 \<approx> 0.020810\<close>.
\<close>

theorem scenario_A_values:
  "Bc_center (stabilityCircle initial_params) = 605 / 3604
    \<and> R (stabilityCircle initial_params) = 75 / 3604
    \<and> \<bar>Bc_center (stabilityCircle initial_params) - 0.16787\<bar> < 0.00001
    \<and> \<bar>R (stabilityCircle initial_params) - 0.020810\<bar> < 0.000001"
  by (simp add: stabilityCircle_initial)

subsection \<open>C8: the point (0.02, 0.18) under the initial parameters\<close>

text \<open>
  C8 expects the point \<open>G = 0.02\<close>, \<open>Bc = 0.18\<close> to be classified unstable, and the second
  variant's button \<^verbatim>\<open>setG(0.02); setBc(0.18)\<close> is labelled as setting an unstable point
  (line 711). The classifier of either variant answers stable there: the distance to the
  centre, about 0.02339, exceeds the radius, about 0.02081.
\<close>

theorem scenario_C_classified_stable:
  "checkStability (stabilityCircle initial_params) 0.02 0.18
    \<and> checkStability_direct (stabilityCircle_direct initial_params) 0.02 0.18"
  unfolding checkStability_def checkStability_direct_def stabilityCircle_direct_eq
    stabilityCircle_initial
  using boundary_test_scenario_C by (simp add: power2_eq_square)

subsection \<open>C9: the classifier is the strict distance test\<close>

text \<open>
  C9. For every boundary circle (its centre has \<open>G_center = 0\<close>, as every circle that
  \<open>stabilityCircle\<close> returns) and every point \<open>(g, bc)\<close>, the classifier answers stable
  exactly when the Euclidean distance from the point to the centre is strictly greater
  than the radius; the classifier of the second variant does so for every circle. A point
  whose distance equals the radius is classified unstable.
\<close>

theorem checkStability_strict_distance:
  assumes "G_center c = 0"
  shows "checkStability c g bc = (euclidean_distance (g, bc) (G_center c, Bc_center c) > R c)
    \<and> checkStability_direct d g bc
        = (euclidean_distance (g, bc) (G_center d, Bc_center d) > R d)
    \<and> (euclidean_distance (g, bc) (G_center c, Bc_center c) = R c
        \<longrightarrow> \<not> checkStability c g bc)
    \<and> (euclidean_distance (g, bc) (G_center d, Bc_center d) = R d
        \<longrightarrow> \<not> checkStability_direct d g bc)"
  using assms
  by (simp add: checkStability_def checkStability_direct_def euclidean_distance_def
      power2_eq_square)

theorem checkStability_strict_distance_witness:
  "G_center (stabilityCircle initial_params) = 0
    \<and> euclidean_distance (75 / 3604, 605 / 3604)
        (G_center (stabilityCircle initial_params), Bc_center (stabilityCircle initial_params))
        = R (stabilityCircle initial_params)
    \<and> \<not> checkStability (stabilityCircle initial_params) (75 / 3604) (605 / 3604)
    \<and> \<not> checkStability_direct (stabilityCircle_direct initial_params) (75 / 3604) (605 / 3604)
    \<and> checkStability (stabilityCircle initial_params) (76 / 3604) (605 / 3604)"
  using checkStability_strict_distance [of "stabilityCircle initial_params"
      "75 / 3604" "605 / 3604" "stabilityCircle_direct initial_params"]
    checkStability_strict_distance [of "stabilityCircle initial_params"
      "76 / 3604" "605 / 3604" "stabilityCircle_direct initial_params"]
  by (simp add: stabilityCircle_initial stabilityCircle_direct_eq euclidean_distance_def)

subsection \<open>C10: the operating point lies in the closed first quadrant\<close>

text \<open>
  C10. When every load and capacitor magnitude of the configuration is nonnegative and
  the reference voltage \<open>V\<close> is strictly positive, the aggregation returns \<open>G \<ge> 0\<close> and
  \<open>Bc \<ge> 0\<close>, whichever components are connected.
\<close>

theorem aggregate_first_quadrant:
  assumes "0 \<le> P_load1 cfg" and "0 \<le> P_load2 cfg" and "0 \<le> P_load3 cfg"
    and "0 \<le> Qc_cap1 cfg" and "0 \<le> Qc_cap2 cfg" and "0 \<le> Qc_cable cfg"
    and "0 < V cfg"
  shows "0 \<le> G (aggregate cfg conn) \<and> 0 \<le> Bc (aggregate cfg conn)"
  using assms by (simp add: aggregate_G aggregate_Bc)

theorem aggregate_first_quadrant_witness:
  "0 \<le> P_load1 initial_systemConfig \<and> 0 \<le> P_load2 initial_systemConfig
    \<and> 0 \<le> P_load3 initial_systemConfig \<and> 0 \<le> Qc_cap1 initial_systemConfig
    \<and> 0 \<le> Qc_cap2 initial_systemConfig \<and> 0 \<le> Qc_cable initial_systemConfig
    \<and> 0 < V initial_systemConfig
    \<and> 0 \<le> G (aggregate initial_systemConfig initial_connected)
    \<and> 0 \<le> Bc (aggregate initial_systemConfig initial_connected)
    \<and> G (aggregate initial_systemConfig initial_connected) = 0.1
    \<and> Bc (aggregate initial_systemConfig initial_connected) = 0.075"
  using aggregate_first_quadrant [of initial_systemConfig initial_connected]
  by (simp add: initial_systemConfig_def initial_connected_def aggregate_def Let_def)

end
